theory Spec2Isabelle
  imports Main
begin

section \<open>Password composition policies: data model\<close>

text \<open>
  Conventions of the embedding.
  \<^item> A JavaScript \<open>Set<T>\<close> is the list of its elements in insertion order (no element
    twice); \<open>size\<close> is \<open>length\<close>, \<open>has\<close> is membership in \<open>set\<close>.
  \<^item> A JavaScript object used as a dictionary is the list of its own entries in the
    order \<open>Object.entries\<close> yields them (no key twice); \<open>o[k]\<close> is \<open>map_of o k\<close>,
    where \<open>None\<close> stands for \<open>undefined\<close>. Where the source fills an object by
    assignments \<open>o[k] = v\<close> (\<open>to_json\<close>, the charsets diff of \<open>stringify\<close>, the table
    and the \<open>charset_requirements\<close> that \<open>parse\<close> builds), an assignment under the key
    \<open>__proto__\<close> adds no entry, and a new key that is an array index goes before the
    keys that are not (\<open>obj_set\<close>). In \<open>check_password\<close> the names of the table index
    \<open>charset_mapping\<close> as they are: a charset named \<open>__proto__\<close>, which the source maps
    to the prototype object and not to its index, is outside the model.
  \<^item> An optional field is an \<open>option\<close>; \<open>None\<close> is \<open>undefined\<close>.
  \<^item> A JavaScript number is a \<open>number\<close>: an integer, \<open>NaN\<close>, \<open>Infinity\<close> or
    \<open>-Infinity\<close>. The policy format has integers; arithmetic on them is exact, as it is
    in the source up to \<open>2^53\<close>.
  \<^item> A password is a \<open>string\<close>; every character is one unit both for \<open>for ... of\<close> and
    for \<open>.length\<close>.
  \<^item> A thrown error is the \<open>Inl\<close> of a sum; each constructor of \<open>error\<close> is one
    \<open>throw\<close> of the source and carries what its message interpolates (the index of the
    rule, the name of the charset). The message text itself is not modelled.
\<close>

datatype number = Finite int | NaN | PosInfinity | NegInfinity

type_synonym charset_table = "(string \<times> char list) list"

record PCPSubsetRequirement =
  count :: number
  options :: "string list option"

record PCPCharsetRequirement =
  min_required :: "number option"
  max_allowed :: "number option"
  max_consecutive_cs :: "number option"
  required_locations :: "number list option"
  prohibited_locations :: "number list option"

record PCPRule =
  min_length :: number
  max_length :: "number option"
  max_consecutive :: "number option"
  prohibited_substrings :: "string list option"
  require :: "string list option"
  require_subset :: "PCPSubsetRequirement option"
  charset_requirements :: "(string \<times> PCPCharsetRequirement) list option"

record PCP =
  rules :: "PCPRule list"
  charsets :: charset_table

datatype error =
    CharsetEmpty string
  | CharsetsShareCharacters string string
  | NoRules
  | MinLengthLessThan1 nat
  | MaxLengthLessThan1 nat
  | MaxLengthLessThanMinLength nat
  | MaxConsecutiveLessThan1 nat
  | RequireInvalidCharsets nat
  | SubsetCountLessThan1 nat
  | SubsetOptionsFewerThan2 nat
  | SubsetOptionsInvalidCharsets nat
  | SubsetCountNotLessThanOptions nat
  | SubsetCountNotLessThanCharsets nat
  | CharsetRequirementInvalidName nat string
  | MinRequiredLessThan1 nat string
  | MaxAllowedLessThan1 nat string
  | CharsetMaxConsecutiveLessThan1 nat string
  | RequiredLocationNotGuaranteed nat string number
  | RequiredProhibitedOverlap nat string
  | MaxAllowedLessThanMinRequired nat string
  | RequiredLocationsMoreThanMaxAllowed nat string
  | RequireSubsetOverlap nat
  | CharsetRequirementOverlap nat string
  | MaxAllowedZeroForRequired nat string
  | TypeError
  | OutsideModel

subsection \<open>Numbers\<close>

text \<open>\<open>a < b\<close>: false whenever one side is \<open>NaN\<close>.\<close>

fun js_lt :: "number \<Rightarrow> number \<Rightarrow> bool" where
  "js_lt (Finite a) (Finite b) = (a < b)"
| "js_lt NaN _ = False"
| "js_lt _ NaN = False"
| "js_lt PosInfinity _ = False"
| "js_lt _ NegInfinity = False"
| "js_lt NegInfinity _ = True"
| "js_lt _ PosInfinity = True"

text \<open>\<open>a > b\<close>, \<open>a <= b\<close> and \<open>a >= b\<close>\<close>

definition js_gt :: "number \<Rightarrow> number \<Rightarrow> bool" where
  "js_gt a b = js_lt b a"

definition js_le :: "number \<Rightarrow> number \<Rightarrow> bool" where
  "js_le a b = (if a = NaN then False else if b = NaN then False else \<not> js_lt b a)"

definition js_ge :: "number \<Rightarrow> number \<Rightarrow> bool" where
  "js_ge a b = (if a = NaN then False else if b = NaN then False else \<not> js_lt a b)"

text \<open>\<open>-a\<close> and \<open>a + b\<close>\<close>

fun js_neg :: "number \<Rightarrow> number" where
  "js_neg (Finite a) = Finite (- a)"
| "js_neg NaN = NaN"
| "js_neg PosInfinity = NegInfinity"
| "js_neg NegInfinity = PosInfinity"

fun js_add :: "number \<Rightarrow> number \<Rightarrow> number" where
  "js_add (Finite a) (Finite b) = Finite (a + b)"
| "js_add NaN _ = NaN"
| "js_add _ NaN = NaN"
| "js_add PosInfinity NegInfinity = NaN"
| "js_add NegInfinity PosInfinity = NaN"
| "js_add PosInfinity _ = PosInfinity"
| "js_add _ PosInfinity = PosInfinity"
| "js_add NegInfinity _ = NegInfinity"
| "js_add _ NegInfinity = NegInfinity"

text \<open>A number in a condition: 0 and \<open>NaN\<close> count as false.\<close>

fun number_truthy :: "number \<Rightarrow> bool" where
  "number_truthy (Finite a) = (a \<noteq> 0)"
| "number_truthy NaN = False"
| "number_truthy _ = True"

fun is_finite :: "number \<Rightarrow> bool" where
  "is_finite (Finite a) = True"
| "is_finite _ = False"

subsection \<open>Helper functions\<close>

text \<open>\<open>v && p(v)\<close> for an optional number \<open>v\<close>: false when \<open>v\<close> is undefined, 0 or
  \<open>NaN\<close>.\<close>

definition truthy_and :: "number option \<Rightarrow> (number \<Rightarrow> bool) \<Rightarrow> bool" where
  "truthy_and v p = (case v of None \<Rightarrow> False | Some n \<Rightarrow> number_truthy n \<and> p n)"

definition truthy :: "number option \<Rightarrow> bool" where
  "truthy v = truthy_and v (\<lambda>_. True)"

text \<open>
  The reference comparison \<open>first == second\<close> that opens \<open>areSetsEqual\<close> and
  \<open>isSubset\<close> is a shortcut: on one and the same set the rest of the body returns
  true as well.
\<close>

definition areSetsEqual :: "'a list \<Rightarrow> 'a list \<Rightarrow> bool" where
  "areSetsEqual first second =
     (if length first \<noteq> length second then False
      else list_all (\<lambda>element. element \<in> set second) first)"

definition isSubset :: "'a list \<Rightarrow> 'a list \<Rightarrow> bool" where
  "isSubset sub super =
     (if length sub > length super then False
      else list_all (\<lambda>element. element \<in> set super) sub)"

definition hasSetIntersection :: "'a list \<Rightarrow> 'a list \<Rightarrow> bool" where
  "hasSetIntersection first second = list_ex (\<lambda>element. element \<in> set second) first"

definition getSetIntersection :: "'a list \<Rightarrow> 'a list \<Rightarrow> 'a list" where
  "getSetIntersection first second = filter (\<lambda>element. element \<in> set second) first"

subsection \<open>The built-in charset tables\<close>

definition ascii_lowercase :: string where
  "ascii_lowercase = ''abcdefghijklmnopqrstuvwxyz''"

definition ascii_uppercase :: string where
  "ascii_uppercase = ''ABCDEFGHIJKLMNOPQRSTUVWXYZ''"

definition digits :: string where
  "digits = ''0123456789''"

definition symbols :: string where
  "symbols = [CHR ''!'', CHR 0x22, CHR ''#'', CHR ''$'', CHR ''%'', CHR ''&'', CHR 0x27,
     CHR ''('', CHR '')'', CHR ''*'', CHR ''+'', CHR '','', CHR ''-'', CHR ''.'', CHR ''/'',
     CHR '':'', CHR '';'', CHR ''<'', CHR ''='', CHR ''>'', CHR ''?'', CHR ''@'', CHR ''['',
     CHR 0x5C, CHR '']'', CHR ''^'', CHR ''_'', CHR 0x60, CHR ''{'', CHR ''|'', CHR ''}'',
     CHR ''~'']"

definition DEFAULT_CHARSETS :: charset_table where
  "DEFAULT_CHARSETS =
     [(''lower'', ascii_lowercase), (''upper'', ascii_uppercase),
      (''digits'', digits), (''symbols'', symbols)]"

definition ALPHABET_CHARSETS :: charset_table where
  "ALPHABET_CHARSETS =
     [(''alphabet'', ascii_lowercase @ ascii_uppercase),
      (''digits'', digits), (''symbols'', symbols)]"

section \<open>Validation\<close>

subsection \<open>\<open>PCPCharsetRequirement._validate\<close>\<close>

fun validate_required_locations :: "nat \<Rightarrow> string \<Rightarrow> number \<Rightarrow> number list \<Rightarrow> error + unit" where
  "validate_required_locations i key m [] = Inr ()"
| "validate_required_locations i key m (location # rest) =
     (if (js_ge location (Finite 0) \<and> js_ge location m) \<or>
         (js_lt location (Finite 0) \<and> js_ge (js_add (js_neg location) (Finite 1)) m)
      then Inl (RequiredLocationNotGuaranteed i key location)
      else validate_required_locations i key m rest)"

definition PCPCharsetRequirement_validate ::
  "nat \<Rightarrow> string \<Rightarrow> number \<Rightarrow> PCPCharsetRequirement \<Rightarrow> error + unit" where
  "PCPCharsetRequirement_validate i key m this =
     (if truthy_and (min_required this) (\<lambda>v. js_lt v (Finite 1)) then Inl (MinRequiredLessThan1 i key)
      else if truthy_and (max_allowed this) (\<lambda>v. js_lt v (Finite 1))
        then Inl (MaxAllowedLessThan1 i key)
      else if truthy_and (max_consecutive_cs this) (\<lambda>v. js_lt v (Finite 1))
        then Inl (CharsetMaxConsecutiveLessThan1 i key)
      else
        (case (case required_locations this of
                 None \<Rightarrow> Inr ()
               | Some ls \<Rightarrow> validate_required_locations i key m ls) of
           Inl e \<Rightarrow> Inl e
         | Inr _ \<Rightarrow>
           (if (case required_locations this of
                  None \<Rightarrow> False
                | Some rl \<Rightarrow>
                    (case prohibited_locations this of
                       None \<Rightarrow> False
                     | Some pl \<Rightarrow> list_ex (\<lambda>x. x \<in> set pl) rl))
            then Inl (RequiredProhibitedOverlap i key)
            else if truthy_and (max_allowed this)
                      (\<lambda>ma. truthy_and (min_required this) (\<lambda>mr. js_lt ma mr))
              then Inl (MaxAllowedLessThanMinRequired i key)
            else if truthy_and (max_allowed this)
                      (\<lambda>ma. case required_locations this of
                               None \<Rightarrow> False
                             | Some rl \<Rightarrow> js_gt (Finite (int (length rl))) ma)
              then Inl (RequiredLocationsMoreThanMaxAllowed i key)
            else Inr ())))"

subsection \<open>\<open>PCPSubsetRequirement._validate\<close>\<close>

definition PCPSubsetRequirement_validate ::
  "nat \<Rightarrow> string list \<Rightarrow> PCPSubsetRequirement \<Rightarrow> error + unit" where
  "PCPSubsetRequirement_validate i cs this =
     (if js_lt (count this) (Finite 1) then Inl (SubsetCountLessThan1 i)
      else
        (case options this of
           Some opts \<Rightarrow>
             (if length opts < 2 then Inl (SubsetOptionsFewerThan2 i)
              else if list_ex (\<lambda>x. x \<notin> set cs) opts then Inl (SubsetOptionsInvalidCharsets i)
              else if js_ge (count this) (Finite (int (length opts)))
                then Inl (SubsetCountNotLessThanOptions i)
              else Inr ())
         | None \<Rightarrow>
             (if js_ge (count this) (Finite (int (length cs)))
              then Inl (SubsetCountNotLessThanCharsets i)
              else Inr ())))"

subsection \<open>\<open>PCPRule._validate\<close>\<close>

text \<open>The first loop over \<open>charset_requirements\<close>: the key is a charset, the entry is valid.\<close>

fun validate_charset_requirements ::
  "nat \<Rightarrow> string list \<Rightarrow> number \<Rightarrow> (string \<times> PCPCharsetRequirement) list \<Rightarrow>
   error + unit" where
  "validate_charset_requirements i cs m [] = Inr ()"
| "validate_charset_requirements i cs m ((key, v) # rest) =
     (if key \<notin> set cs then Inl (CharsetRequirementInvalidName i key)
      else
        (case PCPCharsetRequirement_validate i key m v of
           Inl e \<Rightarrow> Inl e
         | Inr _ \<Rightarrow> validate_charset_requirements i cs m rest))"

text \<open>The second loop: overlap with \<open>require\<close> and \<open>require_subset\<close>.\<close>

fun validate_overlap ::
  "nat \<Rightarrow> string list \<Rightarrow> string list \<Rightarrow> (string \<times> PCPCharsetRequirement) list \<Rightarrow> error + unit" where
  "validate_overlap i require_charsets subset_charsets [] = Inr ()"
| "validate_overlap i require_charsets subset_charsets ((key, v) # rest) =
     (if key \<in> set require_charsets \<or> key \<in> set subset_charsets then
        (if truthy (min_required v) then Inl (CharsetRequirementOverlap i key)
         else if truthy_and (max_allowed v) (\<lambda>ma. ma = Finite 0)
           then Inl (MaxAllowedZeroForRequired i key)
         else validate_overlap i require_charsets subset_charsets rest)
      else validate_overlap i require_charsets subset_charsets rest)"

definition PCPRule_validate :: "nat \<Rightarrow> string list \<Rightarrow> PCPRule \<Rightarrow> error + unit" where
  "PCPRule_validate i cs this =
     (if js_lt (min_length this) (Finite 1) then Inl (MinLengthLessThan1 i)
      else if truthy_and (max_length this) (\<lambda>v. js_lt v (Finite 1))
        then Inl (MaxLengthLessThan1 i)
      else if truthy_and (max_length this)
                (\<lambda>ml. number_truthy (min_length this) \<and> js_lt ml (min_length this))
        then Inl (MaxLengthLessThanMinLength i)
      else if truthy_and (max_consecutive this) (\<lambda>v. js_lt v (Finite 1))
        then Inl (MaxConsecutiveLessThan1 i)
      else if (case require this of None \<Rightarrow> False | Some r \<Rightarrow> \<not> isSubset r cs)
        then Inl (RequireInvalidCharsets i)
      else
        (case (case require_subset this of
                 None \<Rightarrow> Inr ()
               | Some rs \<Rightarrow> PCPSubsetRequirement_validate i cs rs) of
           Inl e \<Rightarrow> Inl e
         | Inr _ \<Rightarrow>
           (case (case charset_requirements this of
                    None \<Rightarrow> Inr ()
                  | Some crs \<Rightarrow> validate_charset_requirements i cs (min_length this) crs) of
              Inl e \<Rightarrow> Inl e
            | Inr _ \<Rightarrow>
              (let require_charsets = (case require this of None \<Rightarrow> [] | Some r \<Rightarrow> r);
                   subset_charsets =
                     (case require_subset this of
                        None \<Rightarrow> cs
                      | Some rs \<Rightarrow> (case options rs of None \<Rightarrow> cs | Some opts \<Rightarrow> opts))
               in if hasSetIntersection require_charsets subset_charsets
                  then Inl (RequireSubsetOverlap i)
                  else
                    (case charset_requirements this of
                       None \<Rightarrow> Inr ()
                     | Some crs \<Rightarrow> validate_overlap i require_charsets subset_charsets crs)))))"

subsection \<open>\<open>PCP.validate\<close>\<close>

fun validate_nonempty :: "charset_table \<Rightarrow> error + unit" where
  "validate_nonempty [] = Inr ()"
| "validate_nonempty ((key, v) # rest) =
     (if length v = 0 then Inl (CharsetEmpty key) else validate_nonempty rest)"

text \<open>The inner loop over \<open>j\<close>, for the charset at index \<open>i\<close>.\<close>

fun validate_disjoint_from :: "string \<Rightarrow> char list \<Rightarrow> charset_table \<Rightarrow> error + unit" where
  "validate_disjoint_from ki vi [] = Inr ()"
| "validate_disjoint_from ki vi ((kj, vj) # rest) =
     (if hasSetIntersection vi vj then Inl (CharsetsShareCharacters ki kj)
      else validate_disjoint_from ki vi rest)"

fun validate_disjoint :: "charset_table \<Rightarrow> error + unit" where
  "validate_disjoint [] = Inr ()"
| "validate_disjoint ((ki, vi) # rest) =
     (case validate_disjoint_from ki vi rest of
        Inl e \<Rightarrow> Inl e
      | Inr _ \<Rightarrow> validate_disjoint rest)"

fun validate_rules :: "nat \<Rightarrow> string list \<Rightarrow> PCPRule list \<Rightarrow> error + unit" where
  "validate_rules i cs [] = Inr ()"
| "validate_rules i cs (rule # rest) =
     (case PCPRule_validate i cs rule of
        Inl e \<Rightarrow> Inl e
      | Inr _ \<Rightarrow> validate_rules (Suc i) cs rest)"

definition validate :: "PCP \<Rightarrow> error + unit" where
  "validate this =
     (case validate_nonempty (charsets this) of
        Inl e \<Rightarrow> Inl e
      | Inr _ \<Rightarrow>
        (case validate_disjoint (charsets this) of
           Inl e \<Rightarrow> Inl e
         | Inr _ \<Rightarrow>
           (if length (rules this) < 1 then Inl NoRules
            else validate_rules 0 (map fst (charsets this)) (rules this))))"

section \<open>Checking a password\<close>

text \<open>
  \<open>mapped_password\<close> is an array of charset indices; an element read from it, or from
  \<open>charset_mapping\<close>, is a number or \<open>undefined\<close>, hence a \<open>nat option\<close>. Equality of
  such values is what \<open>==\<close>, \<open>!=\<close> and \<open>includes\<close> compute on them.
\<close>

definition charset_mapping :: "charset_table \<Rightarrow> (string \<times> nat) list" where
  "charset_mapping cs = zip (map fst cs) [0..<length cs]"

text \<open>\<open>xs[i]\<close>: undefined unless \<open>i\<close> is an index of the array.\<close>

fun js_index :: "'a option list \<Rightarrow> number \<Rightarrow> 'a option" where
  "js_index xs (Finite i) = (if 0 \<le> i \<and> i < int (length xs) then xs ! nat i else None)"
| "js_index xs _ = None"

fun map_char :: "charset_table \<Rightarrow> (string \<times> nat) list \<Rightarrow> char \<Rightarrow> nat option option" where
  "map_char [] cm c = None"
| "map_char ((name, charset) # rest) cm c =
     (if c \<in> set charset then Some (map_of cm name) else map_char rest cm c)"

text \<open>\<open>None\<close>: some character of the password is in no charset.\<close>

fun map_password :: "charset_table \<Rightarrow> (string \<times> nat) list \<Rightarrow> string \<Rightarrow> nat option list option" where
  "map_password cs cm [] = Some []"
| "map_password cs cm (c # rest) =
     (case map_char cs cm c of
        None \<Rightarrow> None
      | Some i \<Rightarrow>
        (case map_password cs cm rest of
           None \<Rightarrow> None
         | Some mapped \<Rightarrow> Some (i # mapped)))"

text \<open>The loop of \<open>max_consecutive\<close> over the raw characters; \<open>last_char\<close> starts as \<open>""\<close>.\<close>

fun consecutive_ok :: "number \<Rightarrow> char option \<Rightarrow> int \<Rightarrow> string \<Rightarrow> bool" where
  "consecutive_ok limit last_char consecutive_count [] = True"
| "consecutive_ok limit last_char consecutive_count (c # rest) =
     (if Some c = last_char then
        (if js_gt (Finite (consecutive_count + 1)) limit then False
         else consecutive_ok limit last_char (consecutive_count + 1) rest)
      else consecutive_ok limit (Some c) 1 rest)"

text \<open>The loop of a charset requirement's \<open>max_consecutive\<close> over the mapped password.\<close>

fun charset_consecutive_ok ::
  "number \<Rightarrow> nat option \<Rightarrow> int \<Rightarrow> nat option list \<Rightarrow> bool" where
  "charset_consecutive_ok limit charset_index consecutive_count [] = True"
| "charset_consecutive_ok limit charset_index consecutive_count (index # rest) =
     (if index = charset_index then
        (if js_gt (Finite (consecutive_count + 1)) limit then False
         else charset_consecutive_ok limit charset_index (consecutive_count + 1) rest)
      else charset_consecutive_ok limit charset_index 0 rest)"

fun starts_with :: "'a list \<Rightarrow> 'a list \<Rightarrow> bool" where
  "starts_with xs [] = True"
| "starts_with [] (y # ys) = False"
| "starts_with (x # xs) (y # ys) = (x = y \<and> starts_with xs ys)"

text \<open>\<open>String.prototype.includes\<close>: the argument occurs as a contiguous substring.\<close>

fun str_includes :: "'a list \<Rightarrow> 'a list \<Rightarrow> bool" where
  "str_includes [] s = starts_with [] s"
| "str_includes (c # cs) s = (starts_with (c # cs) s \<or> str_includes cs s)"

definition check_charset_requirement ::
  "string \<Rightarrow> (string \<times> nat) list \<Rightarrow> nat option list \<Rightarrow> string \<Rightarrow> PCPCharsetRequirement \<Rightarrow> bool" where
  "check_charset_requirement password cm mapped_password charset requirements =
     (let charset_index = map_of cm charset;
          charset_count = Finite (int (length (filter (\<lambda>c. c = charset_index) mapped_password)));
          len = Finite (int (length password))
      in if truthy_and (min_required requirements) (\<lambda>v. js_lt charset_count v) then False
         else if truthy_and (max_allowed requirements) (\<lambda>v. js_gt charset_count v) then False
         else if truthy_and (max_consecutive_cs requirements)
                   (\<lambda>v. \<not> charset_consecutive_ok v charset_index 0 mapped_password)
           then False
         else if (case required_locations requirements of
                    None \<Rightarrow> False
                  | Some ls \<Rightarrow>
                      list_ex (\<lambda>location.
                        (js_ge location (Finite 0) \<and>
                           js_index mapped_password location \<noteq> charset_index) \<or>
                        (js_le location (Finite 0) \<and>
                           js_index mapped_password (js_add len location) \<noteq> charset_index)) ls)
           then False
         else if (case prohibited_locations requirements of
                    None \<Rightarrow> False
                  | Some ls \<Rightarrow>
                      list_ex (\<lambda>location.
                        (let corrected_location =
                               (if js_ge location (Finite 0) then location
                                else js_add len location)
                         in js_ge corrected_location (Finite 0) \<and>
                            js_gt len corrected_location \<and>
                            js_index mapped_password corrected_location = charset_index)) ls)
           then False
         else True)"

fun check_charset_requirements ::
  "string \<Rightarrow> (string \<times> nat) list \<Rightarrow> nat option list \<Rightarrow>
   (string \<times> PCPCharsetRequirement) list \<Rightarrow> bool" where
  "check_charset_requirements password cm mapped_password [] = True"
| "check_charset_requirements password cm mapped_password ((charset, requirements) # rest) =
     (if check_charset_requirement password cm mapped_password charset requirements
      then check_charset_requirements password cm mapped_password rest
      else False)"

definition check_password_against_rule ::
  "string \<Rightarrow> PCPRule \<Rightarrow> (string \<times> nat) list \<Rightarrow> nat option list \<Rightarrow> bool" where
  "check_password_against_rule password rule cm mapped_password =
     (if js_lt (Finite (int (length password))) (min_length rule) then False
      else if truthy_and (max_length rule) (\<lambda>v. js_gt (Finite (int (length password))) v)
        then False
      else if truthy_and (max_consecutive rule) (\<lambda>v. \<not> consecutive_ok v None 0 password)
        then False
      else if (case prohibited_substrings rule of
                 None \<Rightarrow> False
               | Some ss \<Rightarrow> list_ex (\<lambda>s. str_includes password s) ss)
        then False
      else if (case require rule of
                 None \<Rightarrow> False
               | Some rs \<Rightarrow> list_ex (\<lambda>r. map_of cm r \<notin> set mapped_password) rs)
        then False
      else if (case require_subset rule of
                 None \<Rightarrow> False
               | Some rsub \<Rightarrow>
                   (let opts = (case options rsub of
                                  Some opt_names \<Rightarrow> map (map_of cm) opt_names
                                | None \<Rightarrow> map (\<lambda>(name, index). Some index) cm)
                    in js_lt (Finite (int (length (filter (\<lambda>opt. opt \<in> set mapped_password) opts))))
                         (count rsub)))
        then False
      else
        (case charset_requirements rule of
           None \<Rightarrow> True
         | Some crs \<Rightarrow> check_charset_requirements password cm mapped_password crs))"

fun check_rules :: "string \<Rightarrow> PCPRule list \<Rightarrow> (string \<times> nat) list \<Rightarrow> nat option list \<Rightarrow> bool" where
  "check_rules password [] cm mapped_password = False"
| "check_rules password (rule # rest) cm mapped_password =
     (if check_password_against_rule password rule cm mapped_password then True
      else check_rules password rest cm mapped_password)"

definition check_password :: "string \<Rightarrow> PCP \<Rightarrow> error + bool" where
  "check_password password pcp =
     (case validate pcp of
        Inl e \<Rightarrow> Inl e
      | Inr _ \<Rightarrow>
        (let cm = charset_mapping (charsets pcp) in
         case map_password (charsets pcp) cm password of
           None \<Rightarrow> Inr False
         | Some mapped_password \<Rightarrow> Inr (check_rules password (rules pcp) cm mapped_password)))"

section \<open>Serialization\<close>

text \<open>
  \<open>json\<close> is what \<open>to_json\<close> builds and what \<open>JSON.parse\<close> returns. The text that
  \<open>JSON.stringify\<close> prints is represented by the value \<open>JSON.parse\<close> reads back from
  it: \<open>JSON_stringify\<close> leaves out the properties whose value is \<open>undefined\<close>, prints
  an \<open>undefined\<close> array element as \<open>null\<close>, and prints \<open>NaN\<close>, \<open>Infinity\<close> and
  \<open>-Infinity\<close> as \<open>null\<close>; \<open>JSON.parse\<close> is then the identity.
  \<open>jsvalue\<close> is a value held by a field of one of the four classes, as \<open>to_json\<close>
  finds it in \<open>Object.entries\<close>: undefined, a number, a \<open>Set\<close> or an object.
\<close>

datatype json =
    JUndefined
  | JNull
  | JBool bool
  | JNum number
  | JStr string
  | JArr "json list"
  | JObj "(string \<times> json) list"

datatype jsvalue =
    VUndefined
  | VNumber number
  | VSet "json list"
  | VObject "(string \<times> jsvalue) list"

type_synonym json_text = json

text \<open>
  \<open>to_json\<close> fills \<open>data\<close> by the assignments \<open>data[key] = ...\<close>, in the order of the
  entries; under the key \<open>__proto__\<close> the assignment adds no entry.
\<close>

fun to_json_value :: "jsvalue \<Rightarrow> json"
  and to_json :: "(string \<times> jsvalue) list \<Rightarrow> (string \<times> json) list" where
  "to_json_value (VSet elements) = (if length elements > 0 then JArr elements else JObj [])"
| "to_json_value (VObject obj) = JObj (to_json obj)"
| "to_json_value VUndefined = JUndefined"
| "to_json_value (VNumber n) = JNum n"
| "to_json [] = []"
| "to_json ((key, v) # rest) =
     (if key = ''__proto__'' then to_json rest
      else (key, to_json_value v) # to_json rest)"

fun JSON_stringify :: "json \<Rightarrow> json_text"
  and stringify_properties :: "(string \<times> json) list \<Rightarrow> (string \<times> json) list"
  and stringify_elements :: "json list \<Rightarrow> json list" where
  "JSON_stringify (JObj obj) = JObj (stringify_properties obj)"
| "JSON_stringify (JArr elements) = JArr (stringify_elements elements)"
| "JSON_stringify (JNum n) = (if is_finite n then JNum n else JNull)"
| "JSON_stringify v = v"
| "stringify_properties [] = []"
| "stringify_properties ((key, v) # rest) =
     (if v = JUndefined then stringify_properties rest
      else (key, JSON_stringify v) # stringify_properties rest)"
| "stringify_elements [] = []"
| "stringify_elements (v # rest) =
     (if v = JUndefined then JNull else JSON_stringify v) # stringify_elements rest"

subsection \<open>The fields of the classes, as \<open>Object.entries\<close> lists them\<close>

definition number_field :: "number option \<Rightarrow> jsvalue" where
  "number_field v = (case v of None \<Rightarrow> VUndefined | Some n \<Rightarrow> VNumber n)"

definition string_set_field :: "string list option \<Rightarrow> jsvalue" where
  "string_set_field v = (case v of None \<Rightarrow> VUndefined | Some s \<Rightarrow> VSet (map JStr s))"

definition number_set_field :: "number list option \<Rightarrow> jsvalue" where
  "number_set_field v = (case v of None \<Rightarrow> VUndefined | Some s \<Rightarrow> VSet (map JNum s))"

definition PCPSubsetRequirement_entries :: "PCPSubsetRequirement \<Rightarrow> (string \<times> jsvalue) list" where
  "PCPSubsetRequirement_entries this =
     [(''count'', VNumber (count this)),
      (''options'', string_set_field (options this))]"

definition PCPCharsetRequirement_entries :: "PCPCharsetRequirement \<Rightarrow> (string \<times> jsvalue) list" where
  "PCPCharsetRequirement_entries this =
     [(''min_required'', number_field (min_required this)),
      (''max_allowed'', number_field (max_allowed this)),
      (''max_consecutive'', number_field (max_consecutive_cs this)),
      (''required_locations'', number_set_field (required_locations this)),
      (''prohibited_locations'', number_set_field (prohibited_locations this))]"

definition PCPRule_entries :: "PCPRule \<Rightarrow> (string \<times> jsvalue) list" where
  "PCPRule_entries this =
     [(''min_length'', VNumber (min_length this)),
      (''max_length'', number_field (max_length this)),
      (''max_consecutive'', number_field (max_consecutive this)),
      (''prohibited_substrings'', string_set_field (prohibited_substrings this)),
      (''require'', string_set_field (require this)),
      (''require_subset'',
         (case require_subset this of
            None \<Rightarrow> VUndefined
          | Some rs \<Rightarrow> VObject (PCPSubsetRequirement_entries rs))),
      (''charset_requirements'',
         (case charset_requirements this of
            None \<Rightarrow> VUndefined
          | Some crs \<Rightarrow>
              VObject (map (\<lambda>(key, cr). (key, VObject (PCPCharsetRequirement_entries cr))) crs)))]"

subsection \<open>\<open>PCP.stringify\<close>\<close>

text \<open>
  \<open>areCharsetsEqual\<close> reads \<open>first.size\<close> and \<open>second.size\<close> of two plain objects:
  the entry named \<open>size\<close>, undefined when there is none. Two such entries are two
  different \<open>Set\<close> objects, so \<open>!=\<close> holds unless both are undefined. The loop runs over
  the entries of \<open>second\<close> and looks each key up in \<open>second\<close>. The second argument is
  always one of the two built-in tables, so the reference comparison \<open>first == second\<close>
  that opens the function is a shortcut for what the rest returns.
\<close>

definition areCharsetsEqual :: "charset_table \<Rightarrow> charset_table \<Rightarrow> bool" where
  "areCharsetsEqual first second =
     (if (case map_of first ''size'' of
            Some _ \<Rightarrow> True
          | None \<Rightarrow> (case map_of second ''size'' of Some _ \<Rightarrow> True | None \<Rightarrow> False))
      then False
      else list_all (\<lambda>(key, v).
             (case map_of second key of
                None \<Rightarrow> False
              | Some v' \<Rightarrow> areSetsEqual v v')) second)"

definition rules_to_json :: "PCPRule list \<Rightarrow> json" where
  "rules_to_json rs = JArr (map (\<lambda>r. JObj (to_json (PCPRule_entries r))) rs)"

text \<open>
  The first loop of the diff assigns a string under each name it selects, which adds no
  entry under the name \<open>__proto__\<close>. (For a name that the built-in table only inherits,
  such as \<open>constructor\<close>, \<open>areSetsEqual\<close> compares the charset with a value that has no
  \<open>size\<close> and is false, so the name is selected as it is when the table lacks it.)
\<close>

definition output_charsets :: "charset_table \<Rightarrow> charset_table \<Rightarrow> (string \<times> json) list" where
  "output_charsets cs default_charsets =
     map (\<lambda>(name, charset). (name, JStr charset))
       (filter (\<lambda>(name, charset).
          (if name = ''__proto__'' then False
           else (case map_of default_charsets name of
                   None \<Rightarrow> True
                 | Some d \<Rightarrow> \<not> areSetsEqual charset d))) cs)
     @ map (\<lambda>name. (name, JNull))
         (filter (\<lambda>name. map_of cs name = None) (map fst default_charsets))"

definition stringify :: "PCP \<Rightarrow> json_text" where
  "stringify this =
     (if areCharsetsEqual (charsets this) DEFAULT_CHARSETS \<or>
         areCharsetsEqual (charsets this) ALPHABET_CHARSETS
      then
        (case rules this of
           [rule] \<Rightarrow> JSON_stringify (JObj (to_json (PCPRule_entries rule)))
         | _ \<Rightarrow> JSON_stringify (JObj [(''rules'', rules_to_json (rules this))]))
      else
        (let default_charsets =
               (if map_of (charsets this) ''alphabet'' \<noteq> None then ALPHABET_CHARSETS
                else DEFAULT_CHARSETS)
         in JSON_stringify
              (JObj [(''charsets'', JObj (output_charsets (charsets this) default_charsets)),
                     (''rules'', rules_to_json (rules this))])))"

subsection \<open>\<open>PCP.parse\<close>\<close>

text \<open>
  The JSON that \<open>parse\<close> reads is untyped. Where a value has a shape that the declared
  types of the fields exclude (a string where a number is declared, an array of numbers
  for a set of names), the model stops with \<open>OutsideModel\<close>. \<open>TypeError\<close> is the error
  JavaScript raises for \<open>new Set(v)\<close> on a value that is not iterable and for \<open>in\<close> on a
  value that is not an object.
\<close>

definition and_then :: "error + 'a \<Rightarrow> ('a \<Rightarrow> error + 'b) \<Rightarrow> error + 'b" where
  "and_then r k = (case r of Inl e \<Rightarrow> Inl e | Inr v \<Rightarrow> k v)"

fun js_truthy :: "json \<Rightarrow> bool" where
  "js_truthy JUndefined = False"
| "js_truthy JNull = False"
| "js_truthy (JBool b) = b"
| "js_truthy (JNum n) = number_truthy n"
| "js_truthy (JStr s) = (s \<noteq> [])"
| "js_truthy (JArr _) = True"
| "js_truthy (JObj _) = True"

text \<open>\<open>key in data && data[key]\<close>\<close>

definition present :: "(string \<times> json) list \<Rightarrow> string \<Rightarrow> bool" where
  "present data key = (case map_of data key of None \<Rightarrow> False | Some v \<Rightarrow> js_truthy v)"

definition set_add :: "'a list \<Rightarrow> 'a \<Rightarrow> 'a list" where
  "set_add s x = (if x \<in> set s then s else s @ [x])"

definition new_Set :: "'a list \<Rightarrow> 'a list" where
  "new_Set xs = foldl set_add [] xs"

fun strings_of :: "json list \<Rightarrow> string list option" where
  "strings_of [] = Some []"
| "strings_of (JStr s # rest) = map_option (\<lambda>ss. s # ss) (strings_of rest)"
| "strings_of (_ # rest) = None"

fun numbers_of :: "json list \<Rightarrow> number list option" where
  "numbers_of [] = Some []"
| "numbers_of (JNum n # rest) = map_option (\<lambda>ns. n # ns) (numbers_of rest)"
| "numbers_of (_ # rest) = None"

fun new_Set_of_strings :: "json option \<Rightarrow> error + string list" where
  "new_Set_of_strings None = Inr []"
| "new_Set_of_strings (Some JUndefined) = Inr []"
| "new_Set_of_strings (Some JNull) = Inr []"
| "new_Set_of_strings (Some (JArr elements)) =
     (case strings_of elements of None \<Rightarrow> Inl OutsideModel | Some ss \<Rightarrow> Inr (new_Set ss))"
| "new_Set_of_strings (Some (JStr s)) = Inr (new_Set (map (\<lambda>c. [c]) s))"
| "new_Set_of_strings (Some _) = Inl TypeError"

fun new_Set_of_numbers :: "json option \<Rightarrow> error + number list" where
  "new_Set_of_numbers None = Inr []"
| "new_Set_of_numbers (Some JUndefined) = Inr []"
| "new_Set_of_numbers (Some JNull) = Inr []"
| "new_Set_of_numbers (Some (JArr elements)) =
     (case numbers_of elements of None \<Rightarrow> Inl OutsideModel | Some ns \<Rightarrow> Inr (new_Set ns))"
| "new_Set_of_numbers (Some (JStr s)) = (if s = [] then Inr [] else Inl OutsideModel)"
| "new_Set_of_numbers (Some _) = Inl TypeError"

fun optional_number :: "json option \<Rightarrow> error + number option" where
  "optional_number None = Inr None"
| "optional_number (Some JUndefined) = Inr None"
| "optional_number (Some (JNum n)) = Inr (Some n)"
| "optional_number (Some _) = Inl OutsideModel"

fun required_number :: "json option \<Rightarrow> error + number" where
  "required_number (Some (JNum n)) = Inr n"
| "required_number _ = Inl OutsideModel"

text \<open>The properties of a value on which \<open>in\<close> and \<open>data[key]\<close> are used.\<close>

fun properties :: "json \<Rightarrow> error + (string \<times> json) list" where
  "properties (JObj obj) = Inr obj"
| "properties (JArr _) = Inl OutsideModel"
| "properties _ = Inl TypeError"

definition PCPSubsetRequirement_from_json :: "json \<Rightarrow> error + PCPSubsetRequirement" where
  "PCPSubsetRequirement_from_json j =
     and_then (properties j) (\<lambda>data.
     and_then (if present data ''options''
               then and_then (new_Set_of_strings (map_of data ''required_locations''))
                      (\<lambda>s. Inr (Some s))
               else Inr None) (\<lambda>opts.
     and_then (required_number (map_of data ''count'')) (\<lambda>c.
     Inr \<lparr>count = c, options = opts\<rparr>)))"

definition PCPCharsetRequirement_from_json :: "json \<Rightarrow> error + PCPCharsetRequirement" where
  "PCPCharsetRequirement_from_json j =
     and_then (properties j) (\<lambda>data.
     and_then (if present data ''required_locations''
               then and_then (new_Set_of_numbers (map_of data ''required_locations''))
                      (\<lambda>s. Inr (Some s))
               else Inr None) (\<lambda>rl.
     and_then (if present data ''prohibited_locations''
               then and_then (new_Set_of_numbers (map_of data ''prohibited_locations''))
                      (\<lambda>s. Inr (Some s))
               else Inr None) (\<lambda>pl.
     and_then (optional_number (map_of data ''min_required'')) (\<lambda>mr.
     and_then (optional_number (map_of data ''max_allowed'')) (\<lambda>ma.
     and_then (optional_number (map_of data ''max_consecutive'')) (\<lambda>mc.
     Inr \<lparr>min_required = mr, max_allowed = ma, max_consecutive_cs = mc,
          required_locations = rl, prohibited_locations = pl\<rparr>))))))"

text \<open>
  The loop \<open>charset_requirements[key] = PCPCharsetRequirement._from_json(value)\<close> over the
  entries of a parsed object: the requirement is built for every entry, and the
  assignment adds no entry under the key \<open>__proto__\<close>.
\<close>

fun charset_requirements_from_json ::
  "(string \<times> json) list \<Rightarrow> error + (string \<times> PCPCharsetRequirement) list" where
  "charset_requirements_from_json [] = Inr []"
| "charset_requirements_from_json ((key, v) # rest) =
     and_then (PCPCharsetRequirement_from_json v) (\<lambda>cr.
     and_then (charset_requirements_from_json rest) (\<lambda>crs.
     Inr (if key = ''__proto__'' then crs else (key, cr) # crs)))"

text \<open>\<open>min_length ?? 1\<close> in the constructor of \<open>PCPRule\<close>.\<close>

fun min_length_or_1 :: "json option \<Rightarrow> error + number" where
  "min_length_or_1 None = Inr (Finite 1)"
| "min_length_or_1 (Some JUndefined) = Inr (Finite 1)"
| "min_length_or_1 (Some JNull) = Inr (Finite 1)"
| "min_length_or_1 (Some (JNum n)) = Inr n"
| "min_length_or_1 (Some _) = Inl OutsideModel"

definition PCPRule_from_json :: "json \<Rightarrow> error + PCPRule" where
  "PCPRule_from_json j =
     and_then (properties j) (\<lambda>data.
     and_then (if present data ''prohibited_substrings''
               then and_then (new_Set_of_strings (map_of data ''prohibited_substrings''))
                      (\<lambda>s. Inr (Some s))
               else Inr None) (\<lambda>ps.
     and_then (if present data ''require''
               then and_then (new_Set_of_strings (map_of data ''require'')) (\<lambda>s. Inr (Some s))
               else Inr None) (\<lambda>req.
     and_then (case map_of data ''require_subset'' of
                 None \<Rightarrow> Inr None
               | Some v \<Rightarrow>
                   (if js_truthy v
                    then and_then (PCPSubsetRequirement_from_json v) (\<lambda>rs. Inr (Some rs))
                    else Inr None)) (\<lambda>rsub.
     and_then (case map_of data ''charset_requirements'' of
                 None \<Rightarrow> Inr None
               | Some v \<Rightarrow>
                   (if js_truthy v
                    then (case v of
                            JObj obj \<Rightarrow>
                              and_then (charset_requirements_from_json obj) (\<lambda>crs. Inr (Some crs))
                          | _ \<Rightarrow> Inl OutsideModel)
                    else Inr None)) (\<lambda>crs.
     and_then (min_length_or_1 (map_of data ''min_length'')) (\<lambda>minl.
     and_then (optional_number (map_of data ''max_length'')) (\<lambda>maxl.
     and_then (optional_number (map_of data ''max_consecutive'')) (\<lambda>maxc.
     Inr \<lparr>min_length = minl, max_length = maxl, max_consecutive = maxc,
          prohibited_substrings = ps, require = req, require_subset = rsub,
          charset_requirements = crs\<rparr>))))))))"

fun rules_from_json :: "json list \<Rightarrow> error + PCPRule list" where
  "rules_from_json [] = Inr []"
| "rules_from_json (r # rest) =
     and_then (PCPRule_from_json r) (\<lambda>rule.
     and_then (rules_from_json rest) (\<lambda>rs.
     Inr (rule # rs)))"

fun uses_alphabet_charset :: "PCPRule list \<Rightarrow> bool" where
  "uses_alphabet_charset [] = False"
| "uses_alphabet_charset (rule # rest) =
     (if (case require rule of None \<Rightarrow> False | Some r \<Rightarrow> ''alphabet'' \<in> set r) \<or>
         (case require_subset rule of
            None \<Rightarrow> False
          | Some rs \<Rightarrow> (case options rs of None \<Rightarrow> False | Some opts \<Rightarrow> ''alphabet'' \<in> set opts))
      then True
      else if (case charset_requirements rule of
                 None \<Rightarrow> False
               | Some crs \<Rightarrow> map_of crs ''alphabet'' \<noteq> None)
        then True
      else uses_alphabet_charset rest)"

text \<open>
  \<open>delete charsets[key]\<close> and \<open>charsets[key] = v\<close> on the copy of the built-in table.
  The own keys of an object are listed with the array indices first (the canonical
  decimal strings of the integers from 0 to \<open>2^32 - 2\<close>), in ascending order, and the
  other keys after them, in the order in which they were added. An assignment under the
  key \<open>__proto__\<close> sets or leaves the prototype and adds no entry.
\<close>

definition is_digit :: "char \<Rightarrow> bool" where
  "is_digit c = (48 \<le> (of_char c :: int) \<and> (of_char c :: int) \<le> 57)"

fun decimal_value :: "int \<Rightarrow> string \<Rightarrow> int" where
  "decimal_value acc [] = acc"
| "decimal_value acc (c # rest) = decimal_value (10 * acc + (of_char c - 48)) rest"

definition array_index :: "string \<Rightarrow> int option" where
  "array_index key =
     (case key of
        [] \<Rightarrow> None
      | c # rest \<Rightarrow>
          (if list_all is_digit key then
             (if c = CHR ''0'' \<and> rest \<noteq> [] then None
              else if decimal_value 0 key < 4294967295 then Some (decimal_value 0 key)
              else None)
           else None))"

fun insert_index :: "int \<Rightarrow> string \<Rightarrow> 'v \<Rightarrow> (string \<times> 'v) list \<Rightarrow> (string \<times> 'v) list" where
  "insert_index n key v [] = [(key, v)]"
| "insert_index n key v ((k, v') # rest) =
     (case array_index k of
        None \<Rightarrow> (key, v) # (k, v') # rest
      | Some m \<Rightarrow>
          (if n < m then (key, v) # (k, v') # rest
           else (k, v') # insert_index n key v rest))"

definition obj_delete :: "string \<Rightarrow> (string \<times> 'v) list \<Rightarrow> (string \<times> 'v) list" where
  "obj_delete key obj = filter (\<lambda>(k, v). k \<noteq> key) obj"

definition obj_set :: "string \<Rightarrow> 'v \<Rightarrow> (string \<times> 'v) list \<Rightarrow> (string \<times> 'v) list" where
  "obj_set key v obj =
     (if key = ''__proto__'' then obj
      else if map_of obj key \<noteq> None
        then map (\<lambda>(k, v'). if k = key then (k, v) else (k, v')) obj
      else (case array_index key of
              None \<Rightarrow> obj @ [(key, v)]
            | Some n \<Rightarrow> insert_index n key v obj))"

fun apply_charsets :: "(string \<times> json) list \<Rightarrow> charset_table \<Rightarrow> error + charset_table" where
  "apply_charsets [] cs = Inr cs"
| "apply_charsets ((key, JNull) # rest) cs = apply_charsets rest (obj_delete key cs)"
| "apply_charsets ((key, JStr s) # rest) cs =
     (if length s > 0 then apply_charsets rest (obj_delete key cs)
      else apply_charsets rest (obj_set key (new_Set s) cs))"
| "apply_charsets ((key, _) # rest) cs = Inl OutsideModel"

definition parse :: "json_text \<Rightarrow> error + PCP" where
  "parse s =
     and_then (properties s) (\<lambda>data.
     and_then (if present data ''rules''
               then (case map_of data ''rules'' of
                       Some (JArr rs) \<Rightarrow> rules_from_json rs
                     | _ \<Rightarrow> Inl TypeError)
               else and_then (PCPRule_from_json (JObj data)) (\<lambda>rule. Inr [rule])) (\<lambda>rs.
     and_then (let preset = (if uses_alphabet_charset rs then ALPHABET_CHARSETS
                             else DEFAULT_CHARSETS)
               in if present data ''charsets''
                  then (case map_of data ''charsets'' of
                          Some (JObj diff) \<Rightarrow> apply_charsets diff preset
                        | _ \<Rightarrow> Inl OutsideModel)
                  else Inr preset) (\<lambda>cs.
     Inr \<lparr>rules = rs, charsets = cs\<rparr>)))"

section \<open>Policies used below\<close>

text \<open>\<open>new PCPRule(min_length)\<close> and \<open>new PCPCharsetRequirement()\<close>: every other field
  is undefined.\<close>

definition PCPRule_new :: "number \<Rightarrow> PCPRule" where
  "PCPRule_new n =
     \<lparr>min_length = n, max_length = None, max_consecutive = None,
      prohibited_substrings = None, require = None, require_subset = None,
      charset_requirements = None\<rparr>"

definition PCPCharsetRequirement_new :: PCPCharsetRequirement where
  "PCPCharsetRequirement_new =
     \<lparr>min_required = None, max_allowed = None, max_consecutive_cs = None,
      required_locations = None, prohibited_locations = None\<rparr>"

text \<open>Scenario A: \<open>{min_length: 8, require: ["upper", "digits"]}\<close>, default charsets.\<close>

definition scenario_A :: PCP where
  "scenario_A =
     \<lparr>rules = [(PCPRule_new (Finite 8))\<lparr>require := Some [''upper'', ''digits'']\<rparr>],
      charsets = DEFAULT_CHARSETS\<rparr>"

text \<open>Scenario E:
  \<open>{min_length: 2, charset_requirements: {digits: {required_locations: [0, -1]}}}\<close>.\<close>

definition scenario_E_rule :: PCPRule where
  "scenario_E_rule =
     (PCPRule_new (Finite 2))\<lparr>charset_requirements :=
        Some [(''digits'', PCPCharsetRequirement_new\<lparr>required_locations := Some [Finite 0, Finite (- 1)]\<rparr>)]\<rparr>"

definition scenario_E :: PCP where
  "scenario_E = \<lparr>rules = [scenario_E_rule], charsets = DEFAULT_CHARSETS\<rparr>"

text \<open>\<open>{min_length: 1, require_subset: {count: 1, options: ["lower", "upper"]}}\<close>\<close>

definition subset_options_policy :: PCP where
  "subset_options_policy =
     \<lparr>rules = [(PCPRule_new (Finite 1))\<lparr>require_subset :=
                  Some \<lparr>count = Finite 1, options = Some [''lower'', ''upper'']\<rparr>\<rparr>],
      charsets = DEFAULT_CHARSETS\<rparr>"

text \<open>\<open>{min_length: 1, require_subset: {count: 2}}\<close> over the alphabet table.\<close>

definition alphabet_subset_policy :: PCP where
  "alphabet_subset_policy =
     \<lparr>rules = [(PCPRule_new (Finite 1))\<lparr>require_subset := Some \<lparr>count = Finite 2, options = None\<rparr>\<rparr>],
      charsets = ALPHABET_CHARSETS\<rparr>"

text \<open>A table of its own, \<open>{lower: "abc"}\<close>, with the rule \<open>{min_length: 1}\<close>.\<close>

definition custom_table_policy :: PCP where
  "custom_table_policy = \<lparr>rules = [PCPRule_new (Finite 1)], charsets = [(''lower'', ''abc'')]\<rparr>"

text \<open>\<open>{min_length: 1, require: ["digits"], require_subset: {count: 1, options: ["lower",
  "upper"]}, charset_requirements: {digits: {max_allowed: 0}, lower: {max_allowed: 0}}}\<close>\<close>

definition max_allowed_zero_policy :: PCP where
  "max_allowed_zero_policy =
     \<lparr>rules = [(PCPRule_new (Finite 1))\<lparr>
         require := Some [''digits''],
         require_subset := Some \<lparr>count = Finite 1, options = Some [''lower'', ''upper'']\<rparr>,
         charset_requirements :=
           Some [(''digits'', PCPCharsetRequirement_new\<lparr>max_allowed := Some (Finite 0)\<rparr>),
                 (''lower'', PCPCharsetRequirement_new\<lparr>max_allowed := Some (Finite 0)\<rparr>)]\<rparr>],
      charsets = DEFAULT_CHARSETS\<rparr>"

text \<open>Scenario B and scenario C as the two rules of one policy.\<close>

definition scenario_B_rule :: PCPRule where
  "scenario_B_rule = (PCPRule_new (Finite 4))\<lparr>max_consecutive := Some (Finite 2)\<rparr>"

definition scenario_C_rule :: PCPRule where
  "scenario_C_rule = (PCPRule_new (Finite 5))\<lparr>prohibited_substrings := Some [''admin'']\<rparr>"

text \<open>\<open>{min_length: 1, charset_requirements: {digits: {required_locations: [0]}}}\<close>\<close>

definition first_is_digit_rule :: PCPRule where
  "first_is_digit_rule =
     (PCPRule_new (Finite 1))\<lparr>charset_requirements :=
        Some [(''digits'', PCPCharsetRequirement_new\<lparr>required_locations := Some [Finite 0]\<rparr>)]\<rparr>"

definition first_is_digit_policy :: PCP where
  "first_is_digit_policy = \<lparr>rules = [first_is_digit_rule], charsets = DEFAULT_CHARSETS\<rparr>"

text \<open>A policy that uses every kind of field that the serializer writes.\<close>

definition long_rule :: PCPRule where
  "long_rule =
     \<lparr>min_length = Finite 8, max_length = Some (Finite 20), max_consecutive = Some (Finite 3),
      prohibited_substrings = Some [''admin'', ''root''],
      require = None,
      require_subset = Some \<lparr>count = Finite 2, options = None\<rparr>,
      charset_requirements =
        Some [(''digits'',
                 \<lparr>min_required = None, max_allowed = Some (Finite 5), max_consecutive_cs = None,
                  required_locations = Some [Finite 1, Finite (- 3)],
                  prohibited_locations = Some [Finite 0]\<rparr>),
              (''symbols'', PCPCharsetRequirement_new\<lparr>max_consecutive_cs := Some (Finite 2)\<rparr>)]\<rparr>"

definition long_policy :: PCP where
  "long_policy = \<lparr>rules = [long_rule, PCPRule_new (Finite 30)], charsets = DEFAULT_CHARSETS\<rparr>"


definition infinity_policy :: PCP where
  "infinity_policy = \<lparr>rules = [PCPRule_new PosInfinity], charsets = DEFAULT_CHARSETS\<rparr>"

text \<open>A rule whose \<open>charset_requirements\<close> have the own key \<open>__proto__\<close>.\<close>

definition proto_key_policy :: PCP where
  "proto_key_policy =
     \<lparr>rules = [(PCPRule_new (Finite 1))\<lparr>charset_requirements :=
                  Some [(''__proto__'', PCPCharsetRequirement_new)]\<rparr>],
      charsets = DEFAULT_CHARSETS\<rparr>"

section \<open>What the serializer writes and reads back\<close>

text \<open>
  A set-valued field is written and read back unchanged when it is unset or a non-empty
  set. (An empty set is written as the object \<open>{}\<close>, on which \<open>new Set\<close> raises.) A number
  is written and read back unchanged when it is finite.
\<close>

definition set_field_ok :: "'a list option \<Rightarrow> bool" where
  "set_field_ok v = (case v of None \<Rightarrow> True | Some s \<Rightarrow> s \<noteq> [] \<and> distinct s)"

definition number_field_ok :: "number option \<Rightarrow> bool" where
  "number_field_ok v = (case v of None \<Rightarrow> True | Some n \<Rightarrow> is_finite n)"

definition number_set_field_ok :: "number list option \<Rightarrow> bool" where
  "number_set_field_ok v =
     (case v of None \<Rightarrow> True | Some s \<Rightarrow> s \<noteq> [] \<and> distinct s \<and> list_all is_finite s)"

definition charset_requirement_serializable :: "PCPCharsetRequirement \<Rightarrow> bool" where
  "charset_requirement_serializable cr =
     (number_field_ok (min_required cr) \<and> number_field_ok (max_allowed cr) \<and>
      number_field_ok (max_consecutive_cs cr) \<and>
      number_set_field_ok (required_locations cr) \<and>
      number_set_field_ok (prohibited_locations cr))"

text \<open>
  A rule with finite numbers, without empty sets, without explicit \<open>options\<close> in its
  \<open>require_subset\<close> and without the key \<open>__proto__\<close> in its \<open>charset_requirements\<close>.
\<close>

definition rule_serializable :: "PCPRule \<Rightarrow> bool" where
  "rule_serializable r =
     (is_finite (min_length r) \<and> number_field_ok (max_length r) \<and>
      number_field_ok (max_consecutive r) \<and>
      set_field_ok (prohibited_substrings r) \<and> set_field_ok (require r) \<and>
      (case require_subset r of
         None \<Rightarrow> True
       | Some rs \<Rightarrow> options rs = None \<and> is_finite (count rs)) \<and>
      (case charset_requirements r of
         None \<Rightarrow> True
       | Some crs \<Rightarrow>
           list_all (\<lambda>(key, cr). key \<noteq> ''__proto__'' \<and> charset_requirement_serializable cr)
             crs))"

text \<open>The table of the policy is the built-in table that \<open>parse\<close> selects for its rules.\<close>

definition preset_inferable :: "PCP \<Rightarrow> bool" where
  "preset_inferable p =
     (if uses_alphabet_charset (rules p) then charsets p = ALPHABET_CHARSETS
      else charsets p = DEFAULT_CHARSETS)"

definition charset_requirement_json :: "PCPCharsetRequirement \<Rightarrow> (string \<times> json) list" where
  "charset_requirement_json cr = stringify_properties (to_json (PCPCharsetRequirement_entries cr))"

definition charset_requirements_json ::
  "(string \<times> PCPCharsetRequirement) list \<Rightarrow> (string \<times> json) list" where
  "charset_requirements_json crs =
     stringify_properties
       (to_json (map (\<lambda>(key, cr). (key, VObject (PCPCharsetRequirement_entries cr))) crs))"

definition rule_json :: "PCPRule \<Rightarrow> (string \<times> json) list" where
  "rule_json r = stringify_properties (to_json (PCPRule_entries r))"

section \<open>Properties of numbers\<close>

lemma js_ge_Finite [simp]: "js_ge (Finite a) (Finite b) = (b \<le> a)"
  by (auto simp: js_ge_def)

lemma js_le_Finite [simp]: "js_le (Finite a) (Finite b) = (a \<le> b)"
  by (auto simp: js_le_def)

lemma js_gt_Finite [simp]: "js_gt (Finite a) (Finite b) = (b < a)"
  by (simp add: js_gt_def)


section \<open>Properties of validation\<close>

lemma throw_if_ok: "((if c then Inl e else r) = Inr u) = (\<not> c \<and> r = Inr u)"
  by simp

lemma seq_ok: "((case r of Inl e \<Rightarrow> Inl e | Inr x \<Rightarrow> k) = Inr u) = (r = Inr () \<and> k = Inr u)"
  by (cases r) auto

text \<open>
  The index of a rule is only reported in the error: whether a rule validates does not
  depend on its place in the list.
\<close>

lemma validate_required_locations_index:
  "validate_required_locations i key m ls = Inr () \<Longrightarrow>
   validate_required_locations j key m ls = Inr ()"
  by (induction ls) (auto split: if_splits)

lemma PCPCharsetRequirement_validate_index:
  "PCPCharsetRequirement_validate i key m c = Inr () \<Longrightarrow>
   PCPCharsetRequirement_validate j key m c = Inr ()"
  unfolding PCPCharsetRequirement_validate_def throw_if_ok seq_ok
  by (auto split: option.splits dest: validate_required_locations_index)

lemma PCPSubsetRequirement_validate_index:
  "PCPSubsetRequirement_validate i cs s = Inr () \<Longrightarrow>
   PCPSubsetRequirement_validate j cs s = Inr ()"
  unfolding PCPSubsetRequirement_validate_def throw_if_ok
  by (auto split: option.splits simp: throw_if_ok)

lemma validate_charset_requirements_index:
  "validate_charset_requirements i cs m crs = Inr () \<Longrightarrow>
   validate_charset_requirements j cs m crs = Inr ()"
proof (induction crs)
  case Nil
  show ?case by simp
next
  case (Cons a crs)
  obtain key v where a: "a = (key, v)" by (cases a)
  from Cons.prems have "key \<in> set cs" "PCPCharsetRequirement_validate i key m v = Inr ()"
    "validate_charset_requirements i cs m crs = Inr ()"
    by (simp_all add: a throw_if_ok seq_ok)
  then show ?case
    using Cons.IH PCPCharsetRequirement_validate_index[of i key m v j]
    by (simp add: a)
qed

lemma validate_overlap_index:
  "validate_overlap i rc sc crs = Inr () \<Longrightarrow> validate_overlap j rc sc crs = Inr ()"
proof (induction crs)
  case Nil
  show ?case by simp
next
  case (Cons a crs)
  obtain key v where a: "a = (key, v)" by (cases a)
  show ?case
  proof (cases "key \<in> set rc \<or> key \<in> set sc")
    case True
    with Cons.prems have "\<not> truthy (min_required v)"
      "\<not> truthy_and (max_allowed v) (\<lambda>ma. ma = Finite 0)"
      "validate_overlap i rc sc crs = Inr ()"
      by (simp_all add: a throw_if_ok)
    then show ?thesis using True Cons.IH by (simp add: a)
  next
    case False
    with Cons.prems have "validate_overlap i rc sc crs = Inr ()" by (simp add: a)
    then show ?thesis using False Cons.IH by (simp add: a)
  qed
qed

lemma PCPRule_validate_index:
  "PCPRule_validate i cs r = Inr () \<Longrightarrow> PCPRule_validate j cs r = Inr ()"
  unfolding PCPRule_validate_def Let_def throw_if_ok seq_ok
  by (auto split: option.splits
      dest: PCPSubsetRequirement_validate_index validate_charset_requirements_index
        validate_overlap_index)

lemma validate_rules_member:
  "validate_rules i cs rs = Inr () \<Longrightarrow> rule \<in> set rs \<Longrightarrow>
   \<exists>j. PCPRule_validate j cs rule = Inr ()"
  by (induction rs arbitrary: i) (auto simp: seq_ok)

lemma validate_member:
  assumes "validate pcp = Inr ()" and "rule \<in> set (rules pcp)"
  shows "\<exists>j. PCPRule_validate j (map fst (charsets pcp)) rule = Inr ()"
  using assms validate_rules_member[of 0 "map fst (charsets pcp)" "rules pcp" rule]
  by (simp add: validate_def seq_ok throw_if_ok)


lemma validate_charset_requirements_key:
  "validate_charset_requirements i cs m crs = Inr () \<Longrightarrow> (name, req) \<in> set crs \<Longrightarrow>
   name \<in> set cs"
  by (induction crs) (auto simp: throw_if_ok seq_ok)

lemma PCPRule_validate_keys:
  "PCPRule_validate j cs rule = Inr () \<Longrightarrow> charset_requirements rule = Some crs \<Longrightarrow>
   (name, req) \<in> set crs \<Longrightarrow> name \<in> set cs"
  by (auto simp: PCPRule_validate_def throw_if_ok seq_ok dest: validate_charset_requirements_key)

text \<open>
  Which single integer location a charset requirement accepts under an integer minimum
  length \<open>m\<close>: a location \<open>p \<ge> 0\<close> when \<open>p < m\<close>, a location \<open>p < 0\<close> when
  \<open>- p + 1 < m\<close>.
\<close>

lemma validate_required_location_iff:
  "validate_required_locations i key (Finite m) [Finite p] = Inr () \<longleftrightarrow>
     (0 \<le> p \<and> p < m) \<or> (p < 0 \<and> - p + 1 < m)"
  by auto

text \<open>The guard \<open>max_allowed && max_allowed == 0\<close> never holds.\<close>

lemma max_allowed_zero_guard: "truthy_and v (\<lambda>ma. ma = Finite 0) = False"
  by (cases v) (auto simp: truthy_and_def)

lemma validate_overlap_never_max_allowed_zero:
  "validate_overlap i rc sc crs \<noteq> Inl (MaxAllowedZeroForRequired j key)"
  by (induction crs) (auto simp: max_allowed_zero_guard split: if_splits)

section \<open>Properties of the checker\<close>

lemma map_char_None:
  "list_all (\<lambda>(name, charset). c \<notin> set charset) cs \<Longrightarrow> map_char cs cm c = None"
  by (induction cs) auto

lemma map_password_None:
  "c \<in> set password \<Longrightarrow> map_char cs cm c = None \<Longrightarrow> map_password cs cm password = None"
  by (induction password) (auto split: option.splits)

lemma map_password_length:
  "map_password cs cm password = Some mapped \<Longrightarrow> length mapped = length password"
  by (induction password arbitrary: mapped) (auto split: option.splits)

lemma charset_mapping_defined:
  "name \<in> set (map fst cs) \<Longrightarrow> map_of (charset_mapping cs) name \<noteq> None"
  by (simp add: charset_mapping_def map_of_zip_is_None)


lemma check_charset_requirements_False:
  "(name, req) \<in> set crs \<Longrightarrow> \<not> check_charset_requirement password cm mapped name req \<Longrightarrow>
   check_charset_requirements password cm mapped crs = False"
  by (induction crs) (auto split: if_splits)

text \<open>
  Location 0 is tested twice, the second time at the index \<open>password.length\<close>, where the
  mapped password has no element.
\<close>

lemma location_0_fails:
  assumes "required_locations req = Some ls" and "Finite 0 \<in> set ls"
    and "length mapped \<le> length password" and "map_of cm name \<noteq> None"
  shows "\<not> check_charset_requirement password cm mapped name req"
proof -
  have "js_index mapped (js_add (Finite (int (length password))) (Finite 0)) = None"
    using assms(3) by simp
  then have "list_ex (\<lambda>location.
               (js_ge location (Finite 0) \<and> js_index mapped location \<noteq> map_of cm name) \<or>
               (js_le location (Finite 0) \<and>
                  js_index mapped (js_add (Finite (int (length password))) location)
                    \<noteq> map_of cm name)) ls"
    using assms(2,4) unfolding list_ex_iff by (intro bexI[of _ "Finite 0"]) auto
  then show ?thesis
    using assms(1) by (simp add: check_charset_requirement_def Let_def)
qed

section \<open>The scenarios\<close>

text \<open>
  Claim C1. Scenario A is the policy with the default charsets and the single rule
  \<open>{min_length: 8, require: ["upper", "digits"]}\<close>; \<open>check\<close> is expected to return true
  for \<open>Password1\<close> and false for \<open>password\<close> and \<open>abcd1234\<close>. The rule has no
  \<open>require_subset\<close>, so \<open>PCPRule._validate\<close> compares \<open>require\<close> with the whole table,
  finds \<open>upper\<close> in both and throws: \<open>check_password\<close> raises on all three passwords.
\<close>

theorem scenario_A_check_raises:
  "check_password ''Password1'' scenario_A = Inl (RequireSubsetOverlap 0) \<and>
   check_password ''password'' scenario_A = Inl (RequireSubsetOverlap 0) \<and>
   check_password ''abcd1234'' scenario_A = Inl (RequireSubsetOverlap 0)"
  by code_simp

text \<open>
  Claim C4. Scenario E is the rule
  \<open>{min_length: 2, charset_requirements: {digits: {required_locations: [0, -1]}}}\<close> over
  the default charsets; \<open>check\<close> is expected to return true for \<open>1a2\<close> and false for
  \<open>a12\<close>. Validation rejects the location \<open>-1\<close> under \<open>min_length = 2\<close>, so
  \<open>check_password\<close> raises on both passwords; and the evaluation of the rule itself, on
  the mapped password of \<open>1a2\<close>, returns false.
\<close>

theorem scenario_E_check_raises:
  "check_password ''1a2'' scenario_E = Inl (RequiredLocationNotGuaranteed 0 ''digits'' (Finite (- 1))) \<and>
   check_password ''a12'' scenario_E = Inl (RequiredLocationNotGuaranteed 0 ''digits'' (Finite (- 1))) \<and>
   map_password DEFAULT_CHARSETS (charset_mapping DEFAULT_CHARSETS) ''1a2''
     = Some [Some 2, Some 0, Some 2] \<and>
   check_password_against_rule ''1a2'' scenario_E_rule (charset_mapping DEFAULT_CHARSETS)
     [Some 2, Some 0, Some 2] = False"
  by code_simp

text \<open>
  Claim C5. A negative required location \<open>p\<close> is expected to be accepted exactly when
  \<open>min_length \<ge> - p\<close>. The location \<open>-1\<close> is rejected under \<open>min_length = 1\<close> and under
  \<open>min_length = 2\<close>, and accepted from \<open>min_length = 3\<close> on.
\<close>

theorem negative_location_rejected:
  "PCPCharsetRequirement_validate 0 ''digits'' (Finite 1)
     (PCPCharsetRequirement_new\<lparr>required_locations := Some [Finite (- 1)]\<rparr>)
     = Inl (RequiredLocationNotGuaranteed 0 ''digits'' (Finite (- 1))) \<and>
   PCPCharsetRequirement_validate 0 ''digits'' (Finite 2)
     (PCPCharsetRequirement_new\<lparr>required_locations := Some [Finite (- 1)]\<rparr>)
     = Inl (RequiredLocationNotGuaranteed 0 ''digits'' (Finite (- 1))) \<and>
   PCPCharsetRequirement_validate 0 ''digits'' (Finite 3)
     (PCPCharsetRequirement_new\<lparr>required_locations := Some [Finite (- 1)]\<rparr>) = Inr ()"
  by code_simp

text \<open>
  Claim C8. A policy in which a charset that is required (\<open>digits\<close>, by \<open>require\<close>) or an
  option of the subset requirement (\<open>lower\<close>) has \<open>max_allowed = 0\<close> is expected to fail
  validation. It validates, and \<open>check_password\<close> accepts \<open>a1\<close>, which has one character
  of each of the two charsets.
\<close>

theorem max_allowed_zero_validates:
  "validate max_allowed_zero_policy = Inr () \<and>
   check_password ''a1'' max_allowed_zero_policy = Inr True"
  by code_simp

section \<open>Semantics of \<open>check_password\<close>\<close>

text \<open>
  Claim C6. For every password and every two rules over one charset table: when the
  policy with the rules \<open>[r1, r2]\<close> validates, \<open>check_password\<close> returns a boolean on
  the two-rule policy and on each of the two single-rule policies, and the first is the
  disjunction of the other two.
\<close>

theorem or_semantics:
  assumes "validate \<lparr>rules = [r1, r2], charsets = cs\<rparr> = Inr ()"
  shows "\<exists>b1 b2.
           check_password password \<lparr>rules = [r1], charsets = cs\<rparr> = Inr b1 \<and>
           check_password password \<lparr>rules = [r2], charsets = cs\<rparr> = Inr b2 \<and>
           check_password password \<lparr>rules = [r1, r2], charsets = cs\<rparr> = Inr (b1 \<or> b2)"
proof -
  from assms have ne: "validate_nonempty cs = Inr ()" and dj: "validate_disjoint cs = Inr ()"
    and v1: "PCPRule_validate 0 (map fst cs) r1 = Inr ()"
    and v2: "PCPRule_validate (Suc 0) (map fst cs) r2 = Inr ()"
    by (simp_all add: validate_def seq_ok throw_if_ok)
  from v2 have v2': "PCPRule_validate 0 (map fst cs) r2 = Inr ()"
    by (rule PCPRule_validate_index)
  have ok1: "validate \<lparr>rules = [r1], charsets = cs\<rparr> = Inr ()"
    using ne dj v1 by (simp add: validate_def)
  have ok2: "validate \<lparr>rules = [r2], charsets = cs\<rparr> = Inr ()"
    using ne dj v2' by (simp add: validate_def)
  show ?thesis
    using assms ok1 ok2
    by (cases "map_password cs (charset_mapping cs) password")
       (auto simp: check_password_def Let_def)
qed

theorem or_semantics_witness:
  "validate \<lparr>rules = [scenario_B_rule, scenario_C_rule], charsets = DEFAULT_CHARSETS\<rparr> = Inr () \<and>
   check_password ''myadminpass'' \<lparr>rules = [scenario_B_rule], charsets = DEFAULT_CHARSETS\<rparr>
     = Inr True \<and>
   check_password ''myadminpass'' \<lparr>rules = [scenario_C_rule], charsets = DEFAULT_CHARSETS\<rparr>
     = Inr False \<and>
   check_password ''myadminpass''
     \<lparr>rules = [scenario_B_rule, scenario_C_rule], charsets = DEFAULT_CHARSETS\<rparr> = Inr True"
proof -
  have v: "validate \<lparr>rules = [scenario_B_rule, scenario_C_rule], charsets = DEFAULT_CHARSETS\<rparr>
             = Inr ()"
    by code_simp
  have c1: "check_password ''myadminpass''
              \<lparr>rules = [scenario_B_rule], charsets = DEFAULT_CHARSETS\<rparr> = Inr True"
    by code_simp
  have c2: "check_password ''myadminpass''
              \<lparr>rules = [scenario_C_rule], charsets = DEFAULT_CHARSETS\<rparr> = Inr False"
    by code_simp
  from or_semantics[OF v, of "''myadminpass''"] c1 c2
  have "check_password ''myadminpass''
          \<lparr>rules = [scenario_B_rule, scenario_C_rule], charsets = DEFAULT_CHARSETS\<rparr> = Inr True"
    by auto
  with v c1 c2 show ?thesis by simp
qed

text \<open>
  Claim C7. When the policy validates and the password has a character that is in no
  charset of the table, \<open>check_password\<close> returns false, whatever the rules are: it does
  not raise, and no rule is evaluated.
\<close>

theorem unknown_character_rejected:
  assumes "validate pcp = Inr ()"
    and "c \<in> set password"
    and "\<forall>(name, charset) \<in> set (charsets pcp). c \<notin> set charset"
  shows "check_password password pcp = Inr False"
proof -
  from assms(3) have "list_all (\<lambda>(name, charset). c \<notin> set charset) (charsets pcp)"
    by (simp add: list_all_iff)
  then have "map_char (charsets pcp) (charset_mapping (charsets pcp)) c = None"
    by (rule map_char_None)
  with assms(2)
  have "map_password (charsets pcp) (charset_mapping (charsets pcp)) password = None"
    by (rule map_password_None)
  with assms(1) show ?thesis
    by (simp add: check_password_def)
qed

theorem unknown_character_rejected_witness:
  "validate \<lparr>rules = [PCPRule_new (Finite 1)], charsets = DEFAULT_CHARSETS\<rparr> = Inr () \<and>
   CHR '' '' \<in> set ''pass word'' \<and>
   list_all (\<lambda>(name, charset). CHR '' '' \<notin> set charset) DEFAULT_CHARSETS \<and>
   check_password ''pass word'' \<lparr>rules = [PCPRule_new (Finite 1)], charsets = DEFAULT_CHARSETS\<rparr>
     = Inr False"
proof -
  have v: "validate \<lparr>rules = [PCPRule_new (Finite 1)], charsets = DEFAULT_CHARSETS\<rparr> = Inr ()"
    by code_simp
  have m: "CHR '' '' \<in> set ''pass word''"
    by simp
  have n: "list_all (\<lambda>(name, charset). CHR '' '' \<notin> set charset) DEFAULT_CHARSETS"
    by code_simp
  then have n': "\<forall>(name, charset)
                   \<in> set (charsets \<lparr>rules = [PCPRule_new (Finite 1)], charsets = DEFAULT_CHARSETS\<rparr>).
                 CHR '' '' \<notin> set charset"
    by (simp add: list_all_iff)
  from unknown_character_rejected[OF v m n'] v m n show ?thesis
    by simp
qed




text \<open>
  Claim C9. When the policy validates and one of its rules has a charset requirement
  whose \<open>required_locations\<close> contain 0, the evaluation of that rule returns false for
  every password that \<open>check_password\<close> evaluates it on: location 0 is also tested at
  the index \<open>password.length\<close>, which is out of range.
\<close>

theorem required_location_0_never_satisfied:
  assumes "validate pcp = Inr ()"
    and "rule \<in> set (rules pcp)"
    and "charset_requirements rule = Some crs"
    and "(name, req) \<in> set crs"
    and "required_locations req = Some ls"
    and "Finite 0 \<in> set ls"
    and "map_password (charsets pcp) (charset_mapping (charsets pcp)) password
           = Some mapped_password"
  shows "check_password_against_rule password rule (charset_mapping (charsets pcp))
           mapped_password = False"
proof -
  from validate_member[OF assms(1,2)] obtain j
    where "PCPRule_validate j (map fst (charsets pcp)) rule = Inr ()" ..
  then have "name \<in> set (map fst (charsets pcp))"
    using assms(3,4) by (rule PCPRule_validate_keys)
  then have "map_of (charset_mapping (charsets pcp)) name \<noteq> None"
    by (rule charset_mapping_defined)
  moreover have "length mapped_password \<le> length password"
    using map_password_length[OF assms(7)] by simp
  ultimately
  have "\<not> check_charset_requirement password (charset_mapping (charsets pcp))
            mapped_password name req"
    using assms(5,6) by (intro location_0_fails)
  with assms(4)
  have "check_charset_requirements password (charset_mapping (charsets pcp))
          mapped_password crs = False"
    by (rule check_charset_requirements_False)
  then show ?thesis
    using assms(3) by (simp add: check_password_against_rule_def)
qed

theorem required_location_0_never_satisfied_witness:
  "validate first_is_digit_policy = Inr () \<and>
   map_password DEFAULT_CHARSETS (charset_mapping DEFAULT_CHARSETS) ''1a2''
     = Some [Some 2, Some 0, Some 2] \<and>
   check_password_against_rule ''1a2'' first_is_digit_rule (charset_mapping DEFAULT_CHARSETS)
     [Some 2, Some 0, Some 2] = False"
proof -
  have v: "validate first_is_digit_policy = Inr ()"
    by code_simp
  have r: "first_is_digit_rule \<in> set (rules first_is_digit_policy)"
    by (simp add: first_is_digit_policy_def)
  have c: "charset_requirements first_is_digit_rule =
             Some [(''digits'', PCPCharsetRequirement_new\<lparr>required_locations := Some [Finite 0]\<rparr>)]"
    by (simp add: first_is_digit_rule_def PCPRule_new_def)
  have e: "(''digits'', PCPCharsetRequirement_new\<lparr>required_locations := Some [Finite 0]\<rparr>)
             \<in> set [(''digits'', PCPCharsetRequirement_new\<lparr>required_locations := Some [Finite 0]\<rparr>)]"
    by simp
  have l: "required_locations (PCPCharsetRequirement_new\<lparr>required_locations := Some [Finite 0]\<rparr>)
             = Some [Finite 0]"
    by simp
  have z: "Finite 0 \<in> set [Finite 0]"
    by simp
  have m: "map_password (charsets first_is_digit_policy)
             (charset_mapping (charsets first_is_digit_policy)) ''1a2''
             = Some [Some 2, Some 0, Some 2]"
    by code_simp
  have cs: "charsets first_is_digit_policy = DEFAULT_CHARSETS"
    by (simp add: first_is_digit_policy_def)
  from required_location_0_never_satisfied[OF v r c e l z m] v m show ?thesis
    by (simp add: cs)
qed

section \<open>Properties of the serializer\<close>

subsection \<open>\<open>new Set\<close>, \<open>to_json\<close> and \<open>JSON.stringify\<close>\<close>

lemma foldl_set_add: "distinct (acc @ xs) \<Longrightarrow> foldl set_add acc xs = acc @ xs"
  by (induction xs arbitrary: acc) (auto simp: set_add_def)

lemma new_Set_distinct: "distinct xs \<Longrightarrow> new_Set xs = xs"
  using foldl_set_add[of "[]" xs] by (simp add: new_Set_def)

lemma strings_of_JStr: "strings_of (map JStr s) = Some s"
  by (induction s) auto

lemma numbers_of_JNum: "numbers_of (map JNum s) = Some s"
  by (induction s) auto

lemma stringify_elements_JStr: "stringify_elements (map JStr s) = map JStr s"
  by (induction s) auto

lemma stringify_elements_JNum:
  "list_all is_finite s \<Longrightarrow> stringify_elements (map JNum s) = map JNum s"
  by (induction s) auto

lemma map_of_to_json:
  "k \<noteq> ''__proto__'' \<Longrightarrow> map_of (to_json es) k = map_option to_json_value (map_of es k)"
  by (induction es) auto

lemma keys_to_json: "k \<notin> set (map fst es) \<Longrightarrow> k \<notin> set (map fst (to_json es))"
  by (induction es) (auto split: if_splits)

lemma distinct_to_json: "distinct (map fst es) \<Longrightarrow> distinct (map fst (to_json es))"
  by (induction es) (auto simp: keys_to_json[simplified])

lemma stringify_properties_absent:
  "map_of es k = None \<Longrightarrow> map_of (stringify_properties es) k = None"
  by (induction es) (auto split: if_splits)

lemma map_of_stringify_properties:
  "distinct (map fst es) \<Longrightarrow>
   map_of (stringify_properties es) k =
     (case map_of es k of
        None \<Rightarrow> None
      | Some v \<Rightarrow> if v = JUndefined then None else Some (JSON_stringify v))"
proof (induction es)
  case Nil
  show ?case by simp
next
  case (Cons a es)
  obtain k' v' where a: "a = (k', v')" by (cases a)
  from Cons.prems have d: "distinct (map fst es)" and n: "k' \<notin> set (map fst es)"
    by (simp_all add: a)
  have "map_of (stringify_properties es) k' = None"
    using stringify_properties_absent[of es k'] n by (simp add: map_of_eq_None_iff)
  then show ?case using Cons.IH[OF d] by (auto simp: a)
qed

text \<open>The property that the serialized form of an object has under a key.\<close>

lemma lookup_serialized:
  "distinct (map fst es) \<Longrightarrow> k \<noteq> ''__proto__'' \<Longrightarrow>
   map_of (stringify_properties (to_json es)) k =
     (case map_of es k of
        None \<Rightarrow> None
      | Some v \<Rightarrow>
          if to_json_value v = JUndefined then None
          else Some (JSON_stringify (to_json_value v)))"
  by (simp add: map_of_stringify_properties distinct_to_json map_of_to_json split: option.splits)

lemma number_field_json [simp]:
  "to_json_value (number_field v) = (case v of None \<Rightarrow> JUndefined | Some n \<Rightarrow> JNum n)"
  by (simp add: number_field_def split: option.splits)

lemma string_set_field_json:
  "set_field_ok v \<Longrightarrow>
   to_json_value (string_set_field v) =
     (case v of None \<Rightarrow> JUndefined | Some s \<Rightarrow> JArr (map JStr s))"
  by (auto simp: string_set_field_def set_field_ok_def split: option.splits)

lemma number_set_field_json:
  "number_set_field_ok v \<Longrightarrow>
   to_json_value (number_set_field v) =
     (case v of None \<Rightarrow> JUndefined | Some s \<Rightarrow> JArr (map JNum s))"
  by (auto simp: number_set_field_def number_set_field_ok_def split: option.splits)

lemma JSON_stringify_finite: "is_finite n \<Longrightarrow> JSON_stringify (JNum n) = JNum n"
  by simp

lemma and_then_Inr [simp]: "and_then (Inr v) k = k v"
  by (simp add: and_then_def)

lemma set_field_from_numbers:
  assumes "map_of data key = map_option (\<lambda>s. JArr (map JNum s)) v"
    and "number_set_field_ok v"
  shows "(if present data key
          then and_then (new_Set_of_numbers (map_of data key)) (\<lambda>s. Inr (Some s))
          else Inr None) = Inr v"
  using assms
  by (cases v) (auto simp: present_def number_set_field_ok_def numbers_of_JNum new_Set_distinct)

lemma set_field_from_strings:
  assumes "map_of data key = map_option (\<lambda>s. JArr (map JStr s)) v" and "set_field_ok v"
  shows "(if present data key
          then and_then (new_Set_of_strings (map_of data key)) (\<lambda>s. Inr (Some s))
          else Inr None) = Inr v"
  using assms
  by (cases v) (auto simp: present_def set_field_ok_def strings_of_JStr new_Set_distinct)

lemma optional_number_JNum: "optional_number (map_option JNum v) = Inr v"
  by (cases v) auto

subsection \<open>Charset requirements\<close>

lemma charset_requirement_lookup:
  assumes "charset_requirement_serializable cr"
  shows "map_of (charset_requirement_json cr) ''min_required'' = map_option JNum (min_required cr)"
    and "map_of (charset_requirement_json cr) ''max_allowed'' = map_option JNum (max_allowed cr)"
    and "map_of (charset_requirement_json cr) ''max_consecutive''
           = map_option JNum (max_consecutive_cs cr)"
    and "map_of (charset_requirement_json cr) ''required_locations'' =
           map_option (\<lambda>s. JArr (map JNum s)) (required_locations cr)"
    and "map_of (charset_requirement_json cr) ''prohibited_locations'' =
           map_option (\<lambda>s. JArr (map JNum s)) (prohibited_locations cr)"
  using assms
  unfolding charset_requirement_json_def charset_requirement_serializable_def
  by (auto simp: lookup_serialized PCPCharsetRequirement_entries_def number_set_field_json
        stringify_elements_JNum number_field_ok_def number_set_field_ok_def
        split: option.splits)

lemma charset_requirement_round_trip:
  assumes "charset_requirement_serializable cr"
  shows "PCPCharsetRequirement_from_json (JObj (charset_requirement_json cr)) = Inr cr"
proof -
  have rl: "number_set_field_ok (required_locations cr)"
    and pl: "number_set_field_ok (prohibited_locations cr)"
    using assms by (simp_all add: charset_requirement_serializable_def)
  show ?thesis
    unfolding PCPCharsetRequirement_from_json_def
    by (simp add: set_field_from_numbers[OF charset_requirement_lookup(4)[OF assms] rl]
          set_field_from_numbers[OF charset_requirement_lookup(5)[OF assms] pl]
          charset_requirement_lookup(1,2,3)[OF assms] optional_number_JNum)
qed

lemma charset_requirements_json_Cons:
  "key \<noteq> ''__proto__'' \<Longrightarrow>
   charset_requirements_json ((key, cr) # crs) =
     (key, JObj (charset_requirement_json cr)) # charset_requirements_json crs"
  by (simp add: charset_requirements_json_def charset_requirement_json_def)

lemma charset_requirements_round_trip:
  "list_all (\<lambda>(key, cr). key \<noteq> ''__proto__'' \<and> charset_requirement_serializable cr) crs \<Longrightarrow>
   charset_requirements_from_json (charset_requirements_json crs) = Inr crs"
proof (induction crs)
  case Nil
  show ?case by (simp add: charset_requirements_json_def)
next
  case (Cons a crs)
  obtain key cr where a: "a = (key, cr)" by (cases a)
  from Cons.prems have "key \<noteq> ''__proto__''" and "charset_requirement_serializable cr"
    and "list_all (\<lambda>(key, cr). key \<noteq> ''__proto__'' \<and> charset_requirement_serializable cr) crs"
    by (simp_all add: a)
  then show ?case
    using Cons.IH by (simp add: a charset_requirements_json_Cons charset_requirement_round_trip)
qed

subsection \<open>Subset requirements and rules\<close>

lemma subset_requirement_round_trip:
  assumes "options rs = None" and "is_finite (count rs)"
  shows "PCPSubsetRequirement_from_json
           (JObj (stringify_properties (to_json (PCPSubsetRequirement_entries rs)))) = Inr rs"
  using assms
  by (simp add: PCPSubsetRequirement_from_json_def PCPSubsetRequirement_entries_def
        string_set_field_def present_def)

text \<open>What is written for a field, by the kind of the field.\<close>

lemma written_number_field:
  "number_field_ok v \<Longrightarrow>
   (if to_json_value (number_field v) = JUndefined then None
    else Some (JSON_stringify (to_json_value (number_field v)))) = map_option JNum v"
  by (cases v) (auto simp: number_field_ok_def)

lemma written_string_set_field:
  "set_field_ok v \<Longrightarrow>
   (if to_json_value (string_set_field v) = JUndefined then None
    else Some (JSON_stringify (to_json_value (string_set_field v))))
     = map_option (\<lambda>s. JArr (map JStr s)) v"
  by (cases v) (auto simp: string_set_field_json stringify_elements_JStr)

lemma rule_entries_lookup:
  "map_of (PCPRule_entries r) ''min_length'' = Some (VNumber (min_length r))"
  "map_of (PCPRule_entries r) ''max_length'' = Some (number_field (max_length r))"
  "map_of (PCPRule_entries r) ''max_consecutive'' = Some (number_field (max_consecutive r))"
  "map_of (PCPRule_entries r) ''prohibited_substrings''
     = Some (string_set_field (prohibited_substrings r))"
  "map_of (PCPRule_entries r) ''require'' = Some (string_set_field (require r))"
  "map_of (PCPRule_entries r) ''require_subset'' =
     Some (case require_subset r of
             None \<Rightarrow> VUndefined
           | Some rs \<Rightarrow> VObject (PCPSubsetRequirement_entries rs))"
  "map_of (PCPRule_entries r) ''charset_requirements'' =
     Some (case charset_requirements r of
             None \<Rightarrow> VUndefined
           | Some crs \<Rightarrow>
               VObject (map (\<lambda>(key, cr). (key, VObject (PCPCharsetRequirement_entries cr))) crs))"
  "map_of (PCPRule_entries r) ''rules'' = None"
  "map_of (PCPRule_entries r) ''charsets'' = None"
  by (simp_all add: PCPRule_entries_def)

lemma rule_lookup:
  assumes "rule_serializable r"
  shows "map_of (rule_json r) ''min_length'' = Some (JNum (min_length r))"
    and "map_of (rule_json r) ''max_length'' = map_option JNum (max_length r)"
    and "map_of (rule_json r) ''max_consecutive'' = map_option JNum (max_consecutive r)"
    and "map_of (rule_json r) ''prohibited_substrings'' =
           map_option (\<lambda>s. JArr (map JStr s)) (prohibited_substrings r)"
    and "map_of (rule_json r) ''require'' = map_option (\<lambda>s. JArr (map JStr s)) (require r)"
    and "map_of (rule_json r) ''require_subset'' =
           map_option
             (\<lambda>rs. JObj (stringify_properties (to_json (PCPSubsetRequirement_entries rs))))
             (require_subset r)"
    and "map_of (rule_json r) ''charset_requirements'' =
           map_option (\<lambda>crs. JObj (charset_requirements_json crs)) (charset_requirements r)"
    and "map_of (rule_json r) ''rules'' = None"
    and "map_of (rule_json r) ''charsets'' = None"
proof -
  have d: "distinct (map fst (PCPRule_entries r))"
    by (simp add: PCPRule_entries_def)
  note look = lookup_serialized[OF d]
  from assms have f: "is_finite (min_length r)" and ml: "number_field_ok (max_length r)"
    and mc: "number_field_ok (max_consecutive r)"
    and ps: "set_field_ok (prohibited_substrings r)" and rq: "set_field_ok (require r)"
    by (simp_all add: rule_serializable_def)
  show "map_of (rule_json r) ''min_length'' = Some (JNum (min_length r))"
    using f by (simp add: rule_json_def look rule_entries_lookup)
  show "map_of (rule_json r) ''max_length'' = map_option JNum (max_length r)"
    using written_number_field[OF ml] by (simp add: rule_json_def look rule_entries_lookup)
  show "map_of (rule_json r) ''max_consecutive'' = map_option JNum (max_consecutive r)"
    using written_number_field[OF mc] by (simp add: rule_json_def look rule_entries_lookup)
  show "map_of (rule_json r) ''prohibited_substrings'' =
          map_option (\<lambda>s. JArr (map JStr s)) (prohibited_substrings r)"
    using written_string_set_field[OF ps]
    by (simp add: rule_json_def look rule_entries_lookup)
  show "map_of (rule_json r) ''require'' = map_option (\<lambda>s. JArr (map JStr s)) (require r)"
    using written_string_set_field[OF rq]
    by (simp add: rule_json_def look rule_entries_lookup)
  show "map_of (rule_json r) ''require_subset'' =
          map_option
            (\<lambda>rs. JObj (stringify_properties (to_json (PCPSubsetRequirement_entries rs))))
            (require_subset r)"
    by (cases "require_subset r") (simp_all add: rule_json_def look rule_entries_lookup)
  show "map_of (rule_json r) ''charset_requirements'' =
          map_option (\<lambda>crs. JObj (charset_requirements_json crs)) (charset_requirements r)"
    by (cases "charset_requirements r")
       (simp_all add: rule_json_def look rule_entries_lookup charset_requirements_json_def)
  show "map_of (rule_json r) ''rules'' = None"
    by (simp add: rule_json_def look rule_entries_lookup)
  show "map_of (rule_json r) ''charsets'' = None"
    by (simp add: rule_json_def look rule_entries_lookup)
qed

lemma rule_round_trip:
  assumes "rule_serializable r"
  shows "PCPRule_from_json (JObj (rule_json r)) = Inr r"
proof -
  have ps: "set_field_ok (prohibited_substrings r)" and rq: "set_field_ok (require r)"
    using assms by (simp_all add: rule_serializable_def)
  have rs: "(case map_of (rule_json r) ''require_subset'' of
               None \<Rightarrow> Inr None
             | Some v \<Rightarrow>
                 (if js_truthy v
                  then and_then (PCPSubsetRequirement_from_json v) (\<lambda>rs. Inr (Some rs))
                  else Inr None)) = Inr (require_subset r)"
  proof (cases "require_subset r")
    case None
    then show ?thesis by (simp add: rule_lookup(6)[OF assms])
  next
    case (Some s)
    with assms have "options s = None" and "is_finite (count s)"
      by (simp_all add: rule_serializable_def)
    then show ?thesis
      using Some by (simp add: rule_lookup(6)[OF assms] subset_requirement_round_trip)
  qed
  have crs: "(case map_of (rule_json r) ''charset_requirements'' of
                None \<Rightarrow> Inr None
              | Some v \<Rightarrow>
                  (if js_truthy v
                   then (case v of
                           JObj obj \<Rightarrow>
                             and_then (charset_requirements_from_json obj)
                               (\<lambda>crs. Inr (Some crs))
                         | _ \<Rightarrow> Inl OutsideModel)
                   else Inr None)) = Inr (charset_requirements r)"
  proof (cases "charset_requirements r")
    case None
    then show ?thesis by (simp add: rule_lookup(7)[OF assms])
  next
    case (Some c)
    with assms
    have "list_all (\<lambda>(key, cr). key \<noteq> ''__proto__'' \<and> charset_requirement_serializable cr) c"
      by (simp add: rule_serializable_def)
    then show ?thesis
      using Some by (simp add: rule_lookup(7)[OF assms] charset_requirements_round_trip)
  qed
  show ?thesis
    unfolding PCPRule_from_json_def
    by (simp add: set_field_from_strings[OF rule_lookup(4)[OF assms] ps]
          set_field_from_strings[OF rule_lookup(5)[OF assms] rq]
          rs crs rule_lookup(1,2,3)[OF assms] optional_number_JNum)
qed

lemma rules_round_trip:
  "list_all rule_serializable rs \<Longrightarrow>
   rules_from_json (stringify_elements (map (\<lambda>r. JObj (to_json (PCPRule_entries r))) rs))
     = Inr rs"
  using rule_round_trip
  by (induction rs) (auto simp: rule_json_def)

subsection \<open>Policies\<close>

text \<open>
  \<open>areCharsetsEqual\<close> compares its second argument with itself: against a built-in
  table it holds of every table that has no charset named \<open>size\<close>.
\<close>

lemma areCharsetsEqual_presets:
  assumes "map_of first ''size'' = None"
  shows "areCharsetsEqual first DEFAULT_CHARSETS" and "areCharsetsEqual first ALPHABET_CHARSETS"
proof -
  have "areCharsetsEqual [] DEFAULT_CHARSETS" and "areCharsetsEqual [] ALPHABET_CHARSETS"
    by code_simp+
  then show "areCharsetsEqual first DEFAULT_CHARSETS"
    and "areCharsetsEqual first ALPHABET_CHARSETS"
    using assms by (simp_all add: areCharsetsEqual_def)
qed

lemma stringify_without_charsets:
  assumes "map_of (charsets p) ''size'' = None"
  shows "stringify p =
           (case rules p of
              [rule] \<Rightarrow> JObj (rule_json rule)
            | _ \<Rightarrow> JSON_stringify (JObj [(''rules'', rules_to_json (rules p))]))"
  using areCharsetsEqual_presets(1)[OF assms]
  by (simp add: stringify_def rule_json_def split: list.splits)

lemma preset_no_size:
  "map_of DEFAULT_CHARSETS ''size'' = None" "map_of ALPHABET_CHARSETS ''size'' = None"
  by (simp_all add: DEFAULT_CHARSETS_def ALPHABET_CHARSETS_def)

lemma parse_stringify:
  assumes "list_all rule_serializable (rules p)" and "preset_inferable p"
  shows "parse (stringify p) = Inr p"
proof -
  have cs: "(if uses_alphabet_charset (rules p) then ALPHABET_CHARSETS else DEFAULT_CHARSETS)
              = charsets p"
    using assms(2) by (simp add: preset_inferable_def)
  have "map_of (charsets p) ''size'' = None"
    using cs [symmetric] preset_no_size by (simp split: if_splits)
  note str = stringify_without_charsets[OF this]
  show ?thesis
  proof (cases "\<exists>rule. rules p = [rule]")
    case True
    then obtain rule where r: "rules p = [rule]" ..
    with assms(1) have s: "rule_serializable rule" by simp
    have "stringify p = JObj (rule_json rule)"
      using str r by simp
    then show ?thesis
      using cs r
      by (simp add: parse_def present_def rule_lookup(8,9)[OF s] rule_round_trip[OF s])
  next
    case False
    then have "stringify p = JObj [(''rules'',
        JArr (stringify_elements (map (\<lambda>r. JObj (to_json (PCPRule_entries r))) (rules p))))]"
      using str by (auto simp: rules_to_json_def split: list.splits)
    then show ?thesis
      using cs by (simp add: parse_def present_def rules_round_trip[OF assms(1)])
  qed
qed

text \<open>
  Rules that are not \<open>rule_serializable\<close>. The explicit \<open>options\<close> of a subset
  requirement are written, and read back from the key \<open>required_locations\<close>, which the
  object does not have: the policy read back has the empty set of options and fails
  validation. An empty \<open>require\<close> is written as \<open>{}\<close>, and \<open>parse\<close> raises on it. An
  infinite \<open>min_length\<close> is written as \<open>null\<close> and read back as 1: the policy rejects
  \<open>a\<close> before and accepts it after. A \<open>charset_requirements\<close> entry under the key
  \<open>__proto__\<close> is not written: the policy fails validation before and validates after.
\<close>

lemma round_trip_loses_subset_options:
  "validate subset_options_policy = Inr () \<and>
   check_password ''a'' subset_options_policy = Inr True \<and>
   parse (stringify subset_options_policy) =
     Inr \<lparr>rules = [(PCPRule_new (Finite 1))\<lparr>require_subset := Some \<lparr>count = Finite 1, options = Some []\<rparr>\<rparr>],
          charsets = DEFAULT_CHARSETS\<rparr> \<and>
   check_password ''a''
     \<lparr>rules = [(PCPRule_new (Finite 1))\<lparr>require_subset := Some \<lparr>count = Finite 1, options = Some []\<rparr>\<rparr>],
      charsets = DEFAULT_CHARSETS\<rparr> = Inl (SubsetOptionsFewerThan2 0)"
  by code_simp

lemma round_trip_raises_on_empty_set:
  "validate \<lparr>rules = [(PCPRule_new (Finite 1))\<lparr>require := Some []\<rparr>], charsets = DEFAULT_CHARSETS\<rparr>
     = Inr () \<and>
   parse (stringify
     \<lparr>rules = [(PCPRule_new (Finite 1))\<lparr>require := Some []\<rparr>], charsets = DEFAULT_CHARSETS\<rparr>)
     = Inl TypeError"
  by code_simp

lemma round_trip_resets_infinite_min_length:
  "validate infinity_policy = Inr () \<and>
   check_password ''a'' infinity_policy = Inr False \<and>
   stringify infinity_policy = JObj [(''min_length'', JNull)] \<and>
   parse (stringify infinity_policy)
     = Inr \<lparr>rules = [PCPRule_new (Finite 1)], charsets = DEFAULT_CHARSETS\<rparr> \<and>
   check_password ''a'' \<lparr>rules = [PCPRule_new (Finite 1)], charsets = DEFAULT_CHARSETS\<rparr>
     = Inr True"
  by code_simp

lemma round_trip_drops_proto_key:
  "validate proto_key_policy = Inl (CharsetRequirementInvalidName 0 ''__proto__'') \<and>
   parse (stringify proto_key_policy)
     = Inr \<lparr>rules = [(PCPRule_new (Finite 1))\<lparr>charset_requirements := Some []\<rparr>],
            charsets = DEFAULT_CHARSETS\<rparr> \<and>
   validate \<lparr>rules = [(PCPRule_new (Finite 1))\<lparr>charset_requirements := Some []\<rparr>],
             charsets = DEFAULT_CHARSETS\<rparr> = Inr ()"
  by code_simp

text \<open>
  Claim C3. \<open>stringify\<close> is expected to leave the charsets out exactly when the table
  equals one of the two built-in tables, and to write the diff otherwise. The table
  \<open>{lower: "abc"}\<close> equals neither (its \<open>lower\<close> is not the built-in \<open>lower\<close>), the policy
  validates, \<open>areCharsetsEqual\<close> holds of it against the default table all the same, and
  the text written is the rule alone: no \<open>charsets\<close> and no \<open>rules\<close>.
\<close>

theorem stringify_omits_custom_charsets:
  "validate custom_table_policy = Inr () \<and>
   \<not> areSetsEqual ''abc'' ascii_lowercase \<and>
   areCharsetsEqual (charsets custom_table_policy) DEFAULT_CHARSETS \<and>
   stringify custom_table_policy = JObj [(''min_length'', JNum (Finite 1))]"
  by code_simp

text \<open>
  Claim C2, as stated: for every policy built from one of the two built-in tables, the
  policy read back from its text accepts the same passwords. The policy with the
  alphabet table and the rule \<open>{min_length: 1, require_subset: {count: 2}}\<close> validates and
  rejects \<open>aB\<close> (one charset of three is present). No rule names \<open>alphabet\<close>, so \<open>parse\<close>
  reads its text back over the default table, where \<open>aB\<close> has two charsets of four and
  is accepted.
\<close>

theorem round_trip_counterexample:
  "validate alphabet_subset_policy = Inr () \<and>
   check_password ''aB'' alphabet_subset_policy = Inr False \<and>
   parse (stringify alphabet_subset_policy)
     = Inr (alphabet_subset_policy\<lparr>charsets := DEFAULT_CHARSETS\<rparr>) \<and>
   check_password ''aB'' (alphabet_subset_policy\<lparr>charsets := DEFAULT_CHARSETS\<rparr>) = Inr True"
  by code_simp

text \<open>
  Claim C2, amended. For every policy whose table is the built-in table that \<open>parse\<close>
  selects for its rules (the alphabet table when a rule names \<open>alphabet\<close>, the default
  table otherwise), and whose rules have finite numbers, no empty set, no explicit
  \<open>options\<close> in a subset requirement and no \<open>charset_requirements\<close> entry under the key
  \<open>__proto__\<close>: \<open>parse\<close> reads the text of \<open>stringify\<close> back as a policy, and
  \<open>check_password\<close> on that policy equals \<open>check_password\<close> on the original for every
  password.
\<close>

theorem round_trip_amended:
  assumes "list_all rule_serializable (rules p)" and "preset_inferable p"
  shows "\<exists>p'. parse (stringify p) = Inr p' \<and>
              (\<forall>password. check_password password p' = check_password password p)"
  using parse_stringify[OF assms] by simp

theorem round_trip_amended_witness:
  "list_all rule_serializable (rules long_policy) \<and> preset_inferable long_policy \<and>
   validate long_policy = Inr () \<and>
   (\<exists>p'. parse (stringify long_policy) = Inr p' \<and>
         (\<forall>password. check_password password p' = check_password password long_policy))"
proof -
  have s: "list_all rule_serializable (rules long_policy)"
    by code_simp
  have i: "preset_inferable long_policy"
    by code_simp
  have v: "validate long_policy = Inr ()"
    by code_simp
  from round_trip_amended[OF s i] s i v show ?thesis
    by simp
qed

end
